theory Spec2Isabelle
  imports Main
begin

section \<open>JavaScript values and strings\<close>

text \<open>
  The component is TypeScript; at run time its values are JavaScript values. A string is
  modelled as a list of characters (code units below 256), the other values only as far as
  the guard of \<open>parseListOutput\<close> looks at them: whether they are strings, and whether
  they are truthy.
\<close>

datatype js_value =
    JSUndefined
  | JSNull
  | JSBool bool
  | JSNumber int
  | JSString string
  | JSObject

text \<open>\<open>ToBoolean\<close>: the empty string, \<open>0\<close>, \<open>false\<close>, \<open>null\<close> and \<open>undefined\<close> are falsy.\<close>

fun truthy :: "js_value \<Rightarrow> bool" where
  "truthy JSUndefined = False"
| "truthy JSNull = False"
| "truthy (JSBool b) = b"
| "truthy (JSNumber n) = (n \<noteq> 0)"
| "truthy (JSString s) = (s \<noteq> [])"
| "truthy JSObject = True"

text \<open>What a \<open>throw\<close> carries: an \<open>Error\<close> object with its message, or any other value.\<close>

datatype js_exn = Error string | NonError

text \<open>
  A number as far as \<open>parseInt\<close> can return it: \<open>NaN\<close>, an integer that a double holds
  exactly, or an infinity.
\<close>

datatype js_number = NaN | Num int | PosInfinity | NegInfinity

text \<open>
  White space as \<open>String.prototype.trim\<close>, the regular expression class \<open>\s\<close> and
  \<open>parseInt\<close> see it (WhiteSpace and LineTerminator), for the characters below 256:
  TAB, LF, VT, FF, CR, SPACE and NBSP.
\<close>

definition isSpace :: "char \<Rightarrow> bool" where
  "isSpace c = (c = CHR 0x09 \<or> c = CHR 0x0A \<or> c = CHR 0x0B \<or> c = CHR 0x0C
              \<or> c = CHR 0x0D \<or> c = CHR 0x20 \<or> c = CHR 0xA0)"

definition isDigit :: "char \<Rightarrow> bool" where
  "isDigit c = ((48::nat) \<le> of_char c \<and> of_char c \<le> (57::nat))"

text \<open>\<open>s.trim()\<close>\<close>

definition trim :: "string \<Rightarrow> string" where
  "trim s = rev (dropWhile isSpace (rev (dropWhile isSpace s)))"

text \<open>\<open>s.startsWith(pre)\<close>\<close>

definition startsWith :: "string \<Rightarrow> string \<Rightarrow> bool" where
  "startsWith s pre = (take (length pre) s = pre)"

text \<open>
  \<open>s.split("\n")\<close>: the pieces between the separators; a string without separator is
  one piece, the empty string too.
\<close>

primrec splitOnAcc :: "char \<Rightarrow> string \<Rightarrow> string \<Rightarrow> string list" where
  "splitOnAcc d [] cur = [cur]"
| "splitOnAcc d (c # cs) cur =
     (if c = d then cur # splitOnAcc d cs [] else splitOnAcc d cs (cur @ [c]))"

definition splitLines :: "string \<Rightarrow> string list" where
  "splitLines s = splitOnAcc (CHR 0x0A) s []"

text \<open>
  \<open>s.split(/\s+/)\<close>: the pieces between maximal runs of white space. A run at the start
  or at the end of \<open>s\<close> leaves an empty piece there; the empty string is one empty piece.
\<close>

function splitWhitespace :: "string \<Rightarrow> string list" where
  "splitWhitespace s =
     (case dropWhile (\<lambda>c. \<not> isSpace c) s of
        [] \<Rightarrow> [s]
      | r # rs \<Rightarrow> takeWhile (\<lambda>c. \<not> isSpace c) s # splitWhitespace (dropWhile isSpace rs))"
  by pat_completeness auto
termination
proof (relation "measure length")
  show "wf (measure length)" by simp
next
  fix s :: string and r rs
  assume "dropWhile (\<lambda>c. \<not> isSpace c) s = r # rs"
  then have "length rs < length (dropWhile (\<lambda>c. \<not> isSpace c) s)" by simp
  also have "\<dots> \<le> length s" by (rule length_dropWhile_le)
  finally have "length rs < length s" .
  moreover have "length (dropWhile isSpace rs) \<le> length rs" by (rule length_dropWhile_le)
  ultimately show "(dropWhile isSpace rs, s) \<in> measure length" by simp
qed

declare splitWhitespace.simps [simp del]

text \<open>\<open>parts.join(sep)\<close>\<close>

fun join :: "string \<Rightarrow> string list \<Rightarrow> string" where
  "join sep [] = []"
| "join sep [x] = x"
| "join sep (x # y # ys) = x @ sep @ join sep (y # ys)"

text \<open>\<open>parts[i]\<close>: \<open>undefined\<close> (here \<open>None\<close>) out of range.\<close>

definition at :: "'a list \<Rightarrow> nat \<Rightarrow> 'a option" where
  "at xs i = (if i < length xs then Some (xs ! i) else None)"

text \<open>
  The double nearest to an integer that is not negative (ties to the even mantissa): a
  number of at most 53 bits is itself; a longer one keeps its 53 leading bits, rounded;
  a result of more than 1024 bits is infinite (\<open>None\<close>).
\<close>

function bitLength :: "int \<Rightarrow> nat" where
  "bitLength n = (if n \<le> 0 then 0 else Suc (bitLength (n div 2)))"
  by pat_completeness auto
termination
  by (relation "measure nat") auto

declare bitLength.simps [simp del]

definition toDouble :: "int \<Rightarrow> int option" where
  "toDouble n =
     (if bitLength n \<le> 53 then Some n
      else
        (let e = bitLength n - 53;
             q = n div 2 ^ e;
             r = n mod 2 ^ e;
             up = (2 * r > 2 ^ e \<or> (2 * r = 2 ^ e \<and> odd q));
             m = (if up then q + 1 else q) * 2 ^ e
         in if bitLength m > 1024 then None else Some m))"

text \<open>
  \<open>parseInt(s, 10)\<close>: leading white space is skipped, one sign is read, then the longest
  run of decimal digits; without a digit the result is \<open>NaN\<close>. With the radix given as 10
  no \<open>0x\<close> prefix is recognised. The digits give an integer, and the result is the double
  nearest to it. (Beyond 20 significant digits ECMAScript lets an engine read the further
  digits as zeros; the model rounds the exact integer.) \<open>parseInt(undefined, 10)\<close> reads
  the string \<open>undefined\<close>.
\<close>

definition digitsValue :: "string \<Rightarrow> int" where
  "digitsValue ds = foldl (\<lambda>a c. 10 * a + (of_char c - 48)) 0 ds"

definition parseInt10 :: "string option \<Rightarrow> js_number" where
  "parseInt10 arg =
     (let s = dropWhile isSpace (case arg of None \<Rightarrow> ''undefined'' | Some t \<Rightarrow> t);
          neg = (case s of c # _ \<Rightarrow> c = CHR ''-'' | [] \<Rightarrow> False);
          signed = (case s of c # _ \<Rightarrow> c = CHR ''-'' \<or> c = CHR ''+'' | [] \<Rightarrow> False);
          ds = takeWhile isDigit (if signed then tl s else s)
      in if ds = [] then NaN
         else
           (case toDouble (digitsValue ds) of
              None \<Rightarrow> (if neg then NegInfinity else PosInfinity)
            | Some m \<Rightarrow> Num (if neg then - m else m)))"

section \<open>The tree node\<close>

text \<open>
  \<^verbatim>\<open>
  interface FileEntry {
    name: string; path: string; isDirectory: boolean;
    size?: number; permissions?: string; expanded?: boolean;
    children?: FileEntry[]; loading?: boolean;
  }
  \<close>
  An optional field is an \<open>option\<close>: \<open>None\<close> is \<open>undefined\<close>.
\<close>

datatype FileEntry = FileEntry
  (name: string)
  (path: string)
  (isDirectory: bool)
  (entrySize: "js_number option")
  (permissions: "string option")
  (expanded: "bool option")
  (children: "FileEntry list option")
  (loading: "bool option")

text \<open>\<open>!flag\<close> for an optional boolean: \<open>undefined\<close> is falsy.\<close>

definition isSet :: "bool option \<Rightarrow> bool" where
  "isSet flag = (case flag of None \<Rightarrow> False | Some b \<Rightarrow> b)"

section \<open>The listing parser\<close>

text \<open>
  The callback of the second \<open>map\<close> in \<open>parseListOutput\<close> (the dialog that runs kubectl
  through \<open>execFile\<close>): \<open>Inr None\<close> is the \<open>null\<close> it returns for a line to drop, and
  \<open>Inl\<close> the TypeError of calling \<open>startsWith\<close> on \<open>undefined\<close>.
\<close>

definition parseLine :: "string \<Rightarrow> string \<Rightarrow> js_exn + FileEntry option" where
  "parseLine basePath line =
     (let parts = splitWhitespace line in
      if length parts < 9 then Inr None
      else
        (case at parts 0 of
           None \<Rightarrow> Inl (Error ''Cannot read properties of undefined'')
         | Some perms \<Rightarrow>
             (let name = join '' '' (drop 8 parts);
                  isDir = startsWith perms ''d'';
                  sz = parseInt10 (at parts 4);
                  fullPath = (if basePath = ''/'' then ''/'' @ name else basePath @ ''/'' @ name)
              in if name = ''.'' \<or> name = ''..'' then Inr None
                 else Inr (Some (FileEntry name fullPath isDir
                        (if isDir then None else if sz = NaN then None else Some sz)
                        (Some perms) (Some False)
                        (if isDir then Some [] else None) None)))))"

text \<open>\<open>lines.map(f)\<close> for a callback that may throw: the first exception ends the map.\<close>

fun mapThrowing :: "('a \<Rightarrow> js_exn + 'b) \<Rightarrow> 'a list \<Rightarrow> js_exn + 'b list" where
  "mapThrowing f [] = Inr []"
| "mapThrowing f (x # xs) =
     (case f x of
        Inl e \<Rightarrow> Inl e
      | Inr y \<Rightarrow> (case mapThrowing f xs of Inl e \<Rightarrow> Inl e | Inr ys \<Rightarrow> Inr (y # ys)))"

text \<open>\<open>.filter((entry) => Boolean(entry))\<close>: the \<open>null\<close>s go, the entries stay.\<close>

fun dropNulls :: "'a option list \<Rightarrow> 'a list" where
  "dropNulls [] = []"
| "dropNulls (None # xs) = dropNulls xs"
| "dropNulls (Some x # xs) = x # dropNulls xs"

definition parseListOutput :: "js_value \<Rightarrow> string \<Rightarrow> js_exn + FileEntry list" where
  "parseListOutput output basePath =
     (case output of
        JSString s \<Rightarrow>
          (if \<not> truthy output then Inr []
           else
             (case mapThrowing (parseLine basePath)
                     (filter (\<lambda>line. length line > 0 \<and> \<not> startsWith line ''total'')
                        (map trim (splitLines s))) of
                Inl e \<Rightarrow> Inl e
              | Inr entries \<Rightarrow> Inr (dropNulls entries)))
      | _ \<Rightarrow> Inr [])"

text \<open>
  The file holds an earlier \<open>FileExplorerDialog\<close> as well, the one that types its
  commands into a terminal through \<open>sendCommand\<close>. Its \<open>parseListOutput\<close> has no guard
  on the input (\<open>output.split\<close> throws on a value that is no string), filters the lines
  untrimmed, keeps a \<open>NaN\<close> size and does not drop \<open>.\<close> and \<open>..\<close>.
\<close>

definition parseLine_sendCommand :: "string \<Rightarrow> string \<Rightarrow> js_exn + FileEntry option" where
  "parseLine_sendCommand basePath line =
     (let parts = splitWhitespace line in
      if length parts < 9 then Inr None
      else
        (case at parts 0 of
           None \<Rightarrow> Inl (Error ''Cannot read properties of undefined'')
         | Some perms \<Rightarrow>
             (let sz = parseInt10 (at parts 4);
                  name = join '' '' (drop 8 parts);
                  isDir = startsWith perms ''d'';
                  fullPath = (if basePath = ''/'' then ''/'' @ name else basePath @ ''/'' @ name)
              in Inr (Some (FileEntry name fullPath isDir
                        (if isDir then None else Some sz)
                        (Some perms) (Some False)
                        (if isDir then Some [] else None) None)))))"

definition parseListOutput_sendCommand :: "js_value \<Rightarrow> string \<Rightarrow> js_exn + FileEntry list" where
  "parseListOutput_sendCommand output basePath =
     (case output of
        JSString s \<Rightarrow>
          (case mapThrowing (parseLine_sendCommand basePath)
                  (filter (\<lambda>line. length (trim line) > 0 \<and> \<not> startsWith line ''total'')
                     (splitLines s)) of
             Inl e \<Rightarrow> Inl e
           | Inr entries \<Rightarrow> Inr (dropNulls entries))
      | JSUndefined \<Rightarrow> Inl (Error ''Cannot read properties of undefined'')
      | JSNull \<Rightarrow> Inl (Error ''Cannot read properties of null'')
      | _ \<Rightarrow> Inl (Error ''output.split is not a function''))"

section \<open>Path-addressed updates of the tree\<close>

text \<open>Object spread with one field replaced: \<open>{ ...file, expanded: v }\<close> and the like.\<close>

fun setExpanded :: "bool option \<Rightarrow> FileEntry \<Rightarrow> FileEntry" where
  "setExpanded v (FileEntry n p d s pm ex ch lo) = FileEntry n p d s pm v ch lo"

fun setChildren :: "FileEntry list option \<Rightarrow> FileEntry \<Rightarrow> FileEntry" where
  "setChildren v (FileEntry n p d s pm ex ch lo) = FileEntry n p d s pm ex v lo"

fun setLoading :: "bool option \<Rightarrow> FileEntry \<Rightarrow> FileEntry" where
  "setLoading v (FileEntry n p d s pm ex ch lo) = FileEntry n p d s pm ex ch v"

text \<open>
  The four updates of the dialog are four closures of one shape,
  \<^verbatim>\<open>
  files.map((file) => {
    if (file.path === path) return { ...file, <change> };
    if (file.children) return { ...file, children: update(file.children) };
    return file;
  })
  \<close>
  which differ in the change only. A node that matches is changed and not searched further;
  an array of children, empty or not, is truthy and is searched.
\<close>

fun updateNode :: "(FileEntry \<Rightarrow> FileEntry) \<Rightarrow> string \<Rightarrow> FileEntry \<Rightarrow> FileEntry" where
  "updateNode change target (FileEntry n p d s pm ex ch lo) =
     (if p = target then change (FileEntry n p d s pm ex ch lo)
      else
        (case ch of
           Some cs \<Rightarrow> FileEntry n p d s pm ex (Some (map (updateNode change target) cs)) lo
         | None \<Rightarrow> FileEntry n p d s pm ex ch lo))"

definition updateMatching :: "(FileEntry \<Rightarrow> FileEntry) \<Rightarrow> string \<Rightarrow> FileEntry list \<Rightarrow> FileEntry list" where
  "updateMatching change target files = map (updateNode change target) files"

text \<open>\<open>updateFiles\<close> of \<open>toggleExpand\<close>: \<open>{ ...file, expanded: !file.expanded }\<close>\<close>

definition toggleExpand_updateFiles :: "string \<Rightarrow> FileEntry list \<Rightarrow> FileEntry list" where
  "toggleExpand_updateFiles target =
     updateMatching (\<lambda>file. setExpanded (Some (\<not> isSet (expanded file))) file) target"

text \<open>\<open>updateFiles\<close> of \<open>loadChildren\<close>: \<open>{ ...file, loading: true }\<close>\<close>

definition loadChildren_updateFiles :: "string \<Rightarrow> FileEntry list \<Rightarrow> FileEntry list" where
  "loadChildren_updateFiles target = updateMatching (setLoading (Some True)) target"

text \<open>\<open>updateFilesWithChildren\<close>: \<open>{ ...file, children, loading: false }\<close>\<close>

definition updateFilesWithChildren :: "string \<Rightarrow> FileEntry list \<Rightarrow> FileEntry list \<Rightarrow> FileEntry list" where
  "updateFilesWithChildren target loaded =
     updateMatching (\<lambda>file. setLoading (Some False) (setChildren (Some loaded) file)) target"

text \<open>\<open>updateFilesOnError\<close>: \<open>{ ...file, loading: false }\<close>\<close>

definition updateFilesOnError :: "string \<Rightarrow> FileEntry list \<Rightarrow> FileEntry list" where
  "updateFilesOnError target = updateMatching (setLoading (Some False)) target"

section \<open>The expand button of a tree row\<close>

text \<open>
  \<open>FileTreeNode\<close> gets its three callbacks as props; what a click does is the list of the
  callbacks it calls, in order. Only a directory row has the button:
  \<^verbatim>\<open>
  onClick={() => {
    if (!entry.expanded && !entry.children) { onLoadChildren(entry.path); }
    onToggleExpand(entry.path);
  }}
  \<close>
\<close>

datatype callback = OnLoadChildren string | OnToggleExpand string | OnDownloadFile string

definition expandButton_onClick :: "FileEntry \<Rightarrow> callback list" where
  "expandButton_onClick entry =
     (if \<not> isSet (expanded entry) \<and> children entry = None
      then [OnLoadChildren (path entry)] else [])
     @ [OnToggleExpand (path entry)]"

definition FileTreeNode_expandButton :: "FileEntry \<Rightarrow> callback list option" where
  "FileTreeNode_expandButton entry =
     (if isDirectory entry then Some (expandButton_onClick entry) else None)"

section \<open>Building the listing command\<close>

record Cluster =
  kubeConfigPath :: string
  contextName :: string

text \<open>
  What the dialog is given: the kubectl path of the preferences, the cluster (absent when
  the frame has none), and the pod and container it browses.
\<close>

record Props =
  prefKubectlPath :: "string option"
  cluster :: "Cluster option"
  podNs :: string
  podName :: string
  containerName :: string

text \<open>\<open>App.Preferences.getKubectlPath() || "kubectl"\<close>\<close>

definition kubectlPath :: "Props \<Rightarrow> string" where
  "kubectlPath props =
     (case prefKubectlPath props of
        Some p \<Rightarrow> (if p \<noteq> [] then p else ''kubectl'')
      | None \<Rightarrow> ''kubectl'')"

definition buildKubectlArgs :: "Props \<Rightarrow> string list \<Rightarrow> string list" where
  "buildKubectlArgs props commandArgs =
     (case cluster props of
        None \<Rightarrow> []
      | Some c \<Rightarrow>
          (if kubeConfigPath c \<noteq> [] then [''--kubeconfig'', kubeConfigPath c] else [])
          @ (if contextName c \<noteq> [] then [''--context'', contextName c] else []))
     @ commandArgs"

text \<open>
  \<^verbatim>\<open>path.replace(/"/g, "\\\"")\<close>: every double quote (character 0x22) becomes a
  backslash (0x5C) and a double quote.
\<close>

definition safePath :: "string \<Rightarrow> string" where
  "safePath p = concat (map (\<lambda>c. if c = CHR 0x22 then [CHR 0x5C, CHR 0x22] else [c]) p)"

text \<open>\<^verbatim>\<open>`ls -la -- "${safePath}"`\<close>\<close>

definition listCommand :: "string \<Rightarrow> string" where
  "listCommand p = ''ls -la -- '' @ [CHR 0x22] @ safePath p @ [CHR 0x22]"

definition listFilesAtPath_args :: "Props \<Rightarrow> string \<Rightarrow> string list" where
  "listFilesAtPath_args props p =
     buildKubectlArgs props
       [''exec'', ''-i'', ''-n'', podNs props, podName props, ''-c'', containerName props,
        ''--'', ''sh'', ''-c'', listCommand p]"

text \<open>
  The earlier dialog types one command line into a terminal. Its \<open>loadFilesAtPath\<close>,
  called for the root only (\<open>loadFilesAtPath("/")\<close> in the effect hook), puts the path
  between the quotes as it is; its \<open>loadChildren\<close> escapes the path first, with the same
  replacement as above.
\<close>

definition terminalCommand :: "Props \<Rightarrow> string \<Rightarrow> string" where
  "terminalCommand props quoted =
     kubectlPath props @ '' exec -i -n '' @ podNs props @ '' '' @ podName props
       @ '' -c '' @ containerName props @ '' -- ls -lah '' @ [CHR 0x22] @ quoted @ [CHR 0x22]
       @ '' 2>&1''"

definition loadFilesAtPath_command :: "Props \<Rightarrow> string \<Rightarrow> string" where
  "loadFilesAtPath_command props p = terminalCommand props p"

definition loadChildren_command :: "Props \<Rightarrow> string \<Rightarrow> string" where
  "loadChildren_command props p = terminalCommand props (safePath p)"

section \<open>The dialog's state and \<open>loadChildren\<close>\<close>

text \<open>
  The three \<open>useState\<close> cells of \<open>FileExplorerDialog\<close>, and the calls of
  \<open>execFile(kubectlPath, args)\<close> made so far (the program's effect on the outside).
\<close>

record Explorer =
  rootFiles :: "FileEntry list"
  dialogLoading :: bool
  dialogError :: "string option"
  execFileCalls :: "(string \<times> string list) list"

text \<open>
  How the promise of \<open>execFile\<close> settles: with a result object, successful or not
  (\<open>result.error?.stderr\<close>, \<open>result.error?.message\<close>), or by rejection.
\<close>

datatype ExecFileResult =
    CallOk js_value
  | CallFailed "string option" "string option"

datatype settled = Resolved ExecFileResult | Rejected js_exn

text \<open>
  \<open>execKubectl\<close>: without a cluster it throws before \<open>execFile\<close> is called; an unsuccessful
  call throws \<open>stderr || message || "Failed to run kubectl"\<close>.
\<close>

definition execKubectl :: "Props \<Rightarrow> settled \<Rightarrow> js_exn + js_value" where
  "execKubectl props outcome =
     (case cluster props of
        None \<Rightarrow> Inl (Error ''Cluster not available. Ensure the cluster is connected.'')
      | Some _ \<Rightarrow>
          (case outcome of
             Rejected e \<Rightarrow> Inl e
           | Resolved (CallOk response) \<Rightarrow> Inr response
           | Resolved (CallFailed err msg) \<Rightarrow>
               Inl (Error
                 (if err \<noteq> None \<and> err \<noteq> Some [] then the err
                  else if msg \<noteq> None \<and> msg \<noteq> Some [] then the msg
                  else ''Failed to run kubectl''))))"

definition listFilesAtPath :: "Props \<Rightarrow> string \<Rightarrow> settled \<Rightarrow> js_exn + FileEntry list" where
  "listFilesAtPath props p outcome =
     (case execKubectl props outcome of
        Inl e \<Rightarrow> Inl e
      | Inr output \<Rightarrow> parseListOutput output p)"

text \<open>
  \<open>loadChildren(path)\<close> runs in two steps. Up to its \<open>await\<close> it marks the node as loading
  and, through \<open>listFilesAtPath\<close> and \<open>execKubectl\<close>, calls \<open>execFile\<close> (when there is a
  cluster). Nothing in it looks at the \<open>loading\<close> flag first.
\<close>

definition loadChildren_begin :: "Props \<Rightarrow> string \<Rightarrow> Explorer \<Rightarrow> Explorer" where
  "loadChildren_begin props p st =
     st\<lparr> rootFiles := loadChildren_updateFiles p (rootFiles st),
         execFileCalls := execFileCalls st @
           (case cluster props of
              None \<Rightarrow> []
            | Some _ \<Rightarrow> [(kubectlPath props, listFilesAtPath_args props p)]) \<rparr>"

text \<open>
  When the promise has settled, the \<open>try\<close> block stores the children, or the \<open>catch\<close>
  block stores the message in the dialog's \<open>error\<close> cell
  (\<open>err instanceof Error ? err.message : "Failed to load directory"\<close>) and clears the
  node's \<open>loading\<close> flag.
\<close>

definition loadChildren_settle :: "Props \<Rightarrow> string \<Rightarrow> settled \<Rightarrow> Explorer \<Rightarrow> Explorer" where
  "loadChildren_settle props p outcome st =
     (case listFilesAtPath props p outcome of
        Inr loaded \<Rightarrow> st\<lparr> rootFiles := updateFilesWithChildren p loaded (rootFiles st) \<rparr>
      | Inl err \<Rightarrow>
          st\<lparr> dialogError := Some (case err of Error m \<Rightarrow> m | NonError \<Rightarrow> ''Failed to load directory''),
              rootFiles := updateFilesOnError p (rootFiles st) \<rparr>)"

definition toggleExpand :: "string \<Rightarrow> Explorer \<Rightarrow> Explorer" where
  "toggleExpand p st = st\<lparr> rootFiles := toggleExpand_updateFiles p (rootFiles st) \<rparr>"

text \<open>
  \<open>loadRootFiles\<close>, run by the effect hook, in the same two steps: up to the \<open>await\<close> it
  sets the dialog's \<open>loading\<close>, clears its \<open>error\<close> and lists \<open>/\<close>; when the promise has
  settled it stores the entries, or the message and an empty tree.
\<close>

definition loadRootFiles_begin :: "Props \<Rightarrow> Explorer \<Rightarrow> Explorer" where
  "loadRootFiles_begin props st =
     st\<lparr> dialogLoading := True, dialogError := None,
         execFileCalls := execFileCalls st @
           (case cluster props of
              None \<Rightarrow> []
            | Some _ \<Rightarrow> [(kubectlPath props, listFilesAtPath_args props ''/'')]) \<rparr>"

definition loadRootFiles_settle :: "Props \<Rightarrow> settled \<Rightarrow> Explorer \<Rightarrow> Explorer" where
  "loadRootFiles_settle props outcome st =
     (case listFilesAtPath props ''/'' outcome of
        Inr files \<Rightarrow> st\<lparr> rootFiles := files, dialogLoading := False \<rparr>
      | Inl err \<Rightarrow>
          st\<lparr> dialogError := Some (case err of Error m \<Rightarrow> m | NonError \<Rightarrow> ''Failed to load files''),
              rootFiles := [], dialogLoading := False \<rparr>)"

text \<open>\<open>useState([])\<close>, \<open>useState(false)\<close>, \<open>useState(null)\<close>: the dialog as it is mounted.\<close>

definition initialState :: Explorer where
  "initialState =
     \<lparr> rootFiles = [], dialogLoading = False, dialogError = None, execFileCalls = [] \<rparr>"

text \<open>
  The states the dialog can be in: the mounted one, and what the steps above make of such a
  state, in any order and with any outcome of the calls.
\<close>

inductive reachable :: "Props \<Rightarrow> Explorer \<Rightarrow> bool" for props :: Props where
  mounted: "reachable props initialState"
| root_begin: "reachable props st \<Longrightarrow> reachable props (loadRootFiles_begin props st)"
| root_settle: "reachable props st \<Longrightarrow> reachable props (loadRootFiles_settle props outcome st)"
| toggled: "reachable props st \<Longrightarrow> reachable props (toggleExpand p st)"
| load_begin: "reachable props st \<Longrightarrow> reachable props (loadChildren_begin props p st)"
| load_settle: "reachable props st \<Longrightarrow> reachable props (loadChildren_settle props p outcome st)"

section \<open>Notions used to state the properties\<close>

text \<open>All nodes of a tree, the node itself first, and of a snapshot.\<close>

fun nodesOf :: "FileEntry \<Rightarrow> FileEntry list" where
  "nodesOf (FileEntry n p d s pm ex ch lo) =
     FileEntry n p d s pm ex ch lo #
       (case ch of None \<Rightarrow> [] | Some cs \<Rightarrow> concat (map nodesOf cs))"

definition allNodes :: "FileEntry list \<Rightarrow> FileEntry list" where
  "allNodes files = concat (map nodesOf files)"

text \<open>
  The nodes an update with the given target changes: those the search reaches whose path is
  the target, in the order of the search. (The search does not go below such a node.)
\<close>

fun targetsOf :: "string \<Rightarrow> FileEntry \<Rightarrow> FileEntry list" where
  "targetsOf target (FileEntry n p d s pm ex ch lo) =
     (if p = target then [FileEntry n p d s pm ex ch lo]
      else (case ch of None \<Rightarrow> [] | Some cs \<Rightarrow> concat (map (targetsOf target) cs)))"

definition targetsIn :: "string \<Rightarrow> FileEntry list \<Rightarrow> FileEntry list" where
  "targetsIn target files = concat (map (targetsOf target) files)"

text \<open>
  \<open>blankAt g target files\<close> is the snapshot with \<open>g\<close> applied to just those nodes. With a
  \<open>g\<close> that blanks some fields, two snapshots that are equal after blanking have the same
  nodes at the same places, equal in every field, but for those fields of the nodes that
  the search reaches at \<open>target\<close>.
\<close>

fun blankNode :: "(FileEntry \<Rightarrow> FileEntry) \<Rightarrow> string \<Rightarrow> FileEntry \<Rightarrow> FileEntry" where
  "blankNode g target (FileEntry n p d s pm ex ch lo) =
     (if p = target then g (FileEntry n p d s pm ex ch lo)
      else FileEntry n p d s pm ex
             (case ch of None \<Rightarrow> None | Some cs \<Rightarrow> Some (map (blankNode g target) cs)) lo)"

definition blankAt :: "(FileEntry \<Rightarrow> FileEntry) \<Rightarrow> string \<Rightarrow> FileEntry list \<Rightarrow> FileEntry list" where
  "blankAt g target files = map (blankNode g target) files"

text \<open>The text of a listing with the given lines: the lines joined by LF.\<close>

definition joinLines :: "string list \<Rightarrow> string" where
  "joinLines ls = join [CHR 0x0A] ls"

text \<open>Every node of the snapshot, at any depth, has its \<open>expanded\<close> flag set.\<close>

definition expandedSet :: "FileEntry list \<Rightarrow> bool" where
  "expandedSet files = list_all (\<lambda>m. expanded m \<noteq> None) (allNodes files)"

text \<open>
  How \<open>sh\<close> reads a double-quoted word (POSIX, 2.2.3), from the character after the
  opening quote: the word ends at the first double quote that is not escaped; a backslash
  escapes a following \<open>$\<close>, backquote, double quote or backslash, joins lines before
  a newline, and is an ordinary character otherwise. The result is the text of the word
  and what follows the closing quote. An unescaped \<open>$\<close> or backquote starts an
  expansion, which is not modelled: the result is \<open>None\<close> then, as for a word that is
  not closed.
\<close>

fun shDoubleQuoted :: "string \<Rightarrow> (string \<times> string) option" where
  "shDoubleQuoted [] = None"
| "shDoubleQuoted (c # cs) =
     (if c = CHR 0x22 then Some ([], cs)
      else if c = CHR 0x24 \<or> c = CHR 0x60 then None
      else if c = CHR 0x5C then
        (case cs of
           [] \<Rightarrow> None
         | d # ds \<Rightarrow>
             (if d = CHR 0x24 \<or> d = CHR 0x60 \<or> d = CHR 0x22 \<or> d = CHR 0x5C
              then map_option (\<lambda>(word, rest). (d # word, rest)) (shDoubleQuoted ds)
              else if d = CHR 0x0A then shDoubleQuoted ds
              else map_option (\<lambda>(word, rest). (c # word, rest)) (shDoubleQuoted cs)))
      else map_option (\<lambda>(word, rest). (c # word, rest)) (shDoubleQuoted cs))"

section \<open>A scenario\<close>

text \<open>
  A dialog on the container \<open>app\<close> of the pod \<open>web\<close>, and a snapshot with the directory
  \<open>/var\<close>, loaded with one child, and the file \<open>/readme.txt\<close>.
\<close>

definition scenarioProps :: Props where
  "scenarioProps =
     \<lparr> prefKubectlPath = None,
       cluster = Some \<lparr> kubeConfigPath = ''/home/op/.kube/config'', contextName = ''dev'' \<rparr>,
       podNs = ''default'', podName = ''web'', containerName = ''app'' \<rparr>"

definition scenarioFiles :: "FileEntry list" where
  "scenarioFiles =
     [FileEntry ''var'' ''/var'' True None (Some ''drwxr-xr-x'') (Some False)
        (Some [FileEntry ''log'' ''/var/log'' True None (Some ''drwxr-xr-x'') (Some False)
                 (Some []) None])
        None,
      FileEntry ''readme.txt'' ''/readme.txt'' False (Some (Num 120)) (Some ''-rw-r--r--'')
        (Some False) None None]"

definition scenarioState :: Explorer where
  "scenarioState =
     \<lparr> rootFiles = scenarioFiles, dialogLoading = False, dialogError = None,
       execFileCalls = [] \<rparr>"

section \<open>The parser: totality and what its entries look like\<close>

lemma parseLine_total: "\<exists>r. parseLine b l = Inr r"
  by (simp add: parseLine_def Let_def at_def)

lemma parseLine_sendCommand_total: "\<exists>r. parseLine_sendCommand b l = Inr r"
  by (simp add: parseLine_sendCommand_def Let_def at_def)

lemma mapThrowing_total:
  "(\<And>x. \<exists>y. f x = Inr y) \<Longrightarrow> mapThrowing f xs = Inr (map (\<lambda>x. projr (f x)) xs)"
proof (induction xs)
  case Nil
  show ?case by simp
next
  case (Cons x xs)
  from Cons.prems obtain y where "f x = Inr y" by blast
  with Cons show ?case by simp
qed

lemma set_dropNulls: "set (dropNulls xs) = {x. Some x \<in> set xs}"
  by (induction xs rule: dropNulls.induct) auto

lemma dropNulls_append: "dropNulls (xs @ ys) = dropNulls xs @ dropNulls ys"
  by (induction xs rule: dropNulls.induct) auto

text \<open>On a string the parser is the pipeline of its four list operations, the empty string included.\<close>

lemma parseListOutput_string:
  "parseListOutput (JSString s) b =
     Inr (dropNulls (map (\<lambda>l. projr (parseLine b l))
            (filter (\<lambda>line. length line > 0 \<and> \<not> startsWith line ''total'')
               (map trim (splitLines s)))))"
proof (cases "s = []")
  case True
  then show ?thesis
    by (simp add: parseListOutput_def splitLines_def trim_def)
next
  case False
  then show ?thesis
    by (simp add: parseListOutput_def mapThrowing_total [OF parseLine_total])
qed

lemma parseListOutput_nonstring:
  "(\<And>s. out \<noteq> JSString s) \<Longrightarrow> parseListOutput out b = Inr []"
  by (cases out) (auto simp: parseListOutput_def)

lemma parseListOutput_total: "\<exists>entries. parseListOutput out b = Inr entries"
proof (cases "\<exists>s. out = JSString s")
  case True
  then show ?thesis by (auto simp: parseListOutput_string)
next
  case False
  then show ?thesis by (simp add: parseListOutput_nonstring)
qed

lemma parseListOutput_sendCommand_string:
  "parseListOutput_sendCommand (JSString s) b =
     Inr (dropNulls (map (\<lambda>l. projr (parseLine_sendCommand b l))
            (filter (\<lambda>line. length (trim line) > 0 \<and> \<not> startsWith line ''total'')
               (splitLines s))))"
  by (simp add: parseListOutput_sendCommand_def mapThrowing_total [OF parseLine_sendCommand_total])

lemma parseLine_name:
  "parseLine b l = Inr (Some e) \<Longrightarrow> name e \<noteq> ''.'' \<and> name e \<noteq> ''..''"
  by (auto simp: parseLine_def Let_def at_def split: if_splits)

lemma parseLine_children:
  "parseLine b l = Inr (Some e) \<Longrightarrow> children e = (if isDirectory e then Some [] else None)"
  by (auto simp: parseLine_def Let_def at_def split: if_splits)

lemma parseLine_sendCommand_children:
  "parseLine_sendCommand b l = Inr (Some e) \<Longrightarrow>
     children e = (if isDirectory e then Some [] else None)"
  by (auto simp: parseLine_sendCommand_def Let_def at_def split: if_splits)

text \<open>Every entry of the result is what the callback made of one kept line.\<close>

lemma parseListOutput_entry:
  assumes "parseListOutput out b = Inr entries" and "e \<in> set entries"
  shows "\<exists>l. parseLine b l = Inr (Some e)"
proof (cases "\<exists>s. out = JSString s")
  case True
  then obtain s where "out = JSString s" by blast
  with assms obtain l where "projr (parseLine b l) = Some e"
    by (auto simp: parseListOutput_string set_dropNulls)
  moreover obtain r where "parseLine b l = Inr r" using parseLine_total by blast
  ultimately show ?thesis by auto
next
  case False
  with assms show ?thesis by (simp add: parseListOutput_nonstring)
qed

lemma parseListOutput_sendCommand_entry:
  assumes "parseListOutput_sendCommand out b = Inr entries" and "e \<in> set entries"
  shows "\<exists>l. parseLine_sendCommand b l = Inr (Some e)"
proof (cases "\<exists>s. out = JSString s")
  case True
  then obtain s where "out = JSString s" by blast
  with assms obtain l where "projr (parseLine_sendCommand b l) = Some e"
    by (auto simp: parseListOutput_sendCommand_string set_dropNulls)
  moreover obtain r where "parseLine_sendCommand b l = Inr r"
    using parseLine_sendCommand_total by blast
  ultimately show ?thesis by auto
next
  case False
  with assms show ?thesis
    by (cases out) (simp_all add: parseListOutput_sendCommand_def)
qed

subsection \<open>Lines of a text\<close>

lemma splitOnAcc_clean: "d \<notin> set l \<Longrightarrow> splitOnAcc d l cur = [cur @ l]"
  by (induction l arbitrary: cur) auto

lemma splitOnAcc_sep:
  "d \<notin> set l \<Longrightarrow> splitOnAcc d (l @ d # rest) cur = (cur @ l) # splitOnAcc d rest []"
  by (induction l arbitrary: cur) auto

lemma splitLines_joinLines:
  "ls \<noteq> [] \<Longrightarrow> \<forall>l \<in> set ls. CHR 0x0A \<notin> set l \<Longrightarrow> splitLines (joinLines ls) = ls"
proof (induction "[CHR 0x0A]" ls rule: join.induct)
  case 1
  then show ?case by simp
next
  case (2 x)
  then show ?case by (simp add: splitLines_def joinLines_def splitOnAcc_clean)
next
  case (3 x y ys)
  then show ?case
    by (simp add: splitLines_def joinLines_def splitOnAcc_sep)
qed

text \<open>The parser on a text given by its lines; no lines at all is the empty text.\<close>

lemma parseListOutput_lines:
  assumes "\<forall>l \<in> set ls. CHR 0x0A \<notin> set l"
  shows "parseListOutput (JSString (joinLines ls)) b =
     Inr (dropNulls (map (\<lambda>l. projr (parseLine b l))
            (filter (\<lambda>line. length line > 0 \<and> \<not> startsWith line ''total'') (map trim ls))))"
proof (cases "ls = []")
  case True
  then show ?thesis by (simp add: joinLines_def parseListOutput_def)
next
  case False
  with assms show ?thesis by (simp add: parseListOutput_string splitLines_joinLines)
qed

lemma short_line_dropped:
  "length (splitWhitespace line) < 9 \<Longrightarrow> projr (parseLine b line) = None"
  by (simp add: parseLine_def)

section \<open>The claims about the parser\<close>

text \<open>
  C4. The end-to-end scenario: the two-line listing, parsed against the parent path \<open>/\<close>,
  gives exactly two entries: the directory \<open>var\<close> at \<open>/var\<close> without a size, and the file
  \<open>readme.txt\<close> at \<open>/readme.txt\<close> with size 120. (The entries also carry the permissions,
  \<open>expanded: false\<close>, and \<open>children\<close>: empty for the directory, absent for the file.)
\<close>

theorem parseListOutput_end_to_end:
  "parseListOutput
     (JSString ''drwxr-xr-x 2 root root 4096 Jan 1 00:00 var\<newline>-rw-r--r-- 1 root root 120 Jan 1 00:00 readme.txt'')
     ''/''
   = Inr [FileEntry ''var'' ''/var'' True None (Some ''drwxr-xr-x'') (Some False) (Some []) None,
          FileEntry ''readme.txt'' ''/readme.txt'' False (Some (Num 120)) (Some ''-rw-r--r--'')
            (Some False) None None]"
  by code_simp

text \<open>
  The parser of the \<open>execFile\<close> dialog never raises, whatever the input and the parent
  path. An input that is no string, or the empty string, gives the empty sequence. A line
  with fewer than 9 tokens is dropped silently: the text with such a line among its lines
  parses to the same entries as the text without it.
\<close>

lemma parseListOutput_never_raises:
  "(\<exists>entries. parseListOutput output basePath = Inr entries)
   \<and> ((\<forall>s. output = JSString s \<longrightarrow> s = []) \<longrightarrow> parseListOutput output basePath = Inr [])
   \<and> (CHR 0x0A \<notin> set bad \<and> (\<forall>l \<in> set (before @ after). CHR 0x0A \<notin> set l)
        \<and> length (splitWhitespace (trim bad)) < 9
      \<longrightarrow> parseListOutput (JSString (joinLines (before @ bad # after))) basePath
          = parseListOutput (JSString (joinLines (before @ after))) basePath)"
proof (intro conjI impI)
  show "\<exists>entries. parseListOutput output basePath = Inr entries"
    by (rule parseListOutput_total)
next
  assume "\<forall>s. output = JSString s \<longrightarrow> s = []"
  then show "parseListOutput output basePath = Inr []"
    by (cases "output") (simp_all add: parseListOutput_def)
next
  assume h: "CHR 0x0A \<notin> set bad \<and> (\<forall>l \<in> set (before @ after). CHR 0x0A \<notin> set l)
        \<and> length (splitWhitespace (trim bad)) < 9"
  then have all: "\<forall>l \<in> set (before @ bad # after). CHR 0x0A \<notin> set l"
    and rest: "\<forall>l \<in> set (before @ after). CHR 0x0A \<notin> set l" by auto
  from h have "projr (parseLine basePath (trim bad)) = None"
    by (intro short_line_dropped) simp
  then show "parseListOutput (JSString (joinLines (before @ bad # after))) basePath
          = parseListOutput (JSString (joinLines (before @ after))) basePath"
    by (simp add: parseListOutput_lines [OF all] parseListOutput_lines [OF rest]
          dropNulls_append)
qed

lemma parseListOutput_short_line_example:
  "parseListOutput
       (JSString (joinLines [''-rw-r--r-- 1 root root 120 Jan 1 00:00 readme.txt'', ''a b c'']))
       ''/''
     = Inr [FileEntry ''readme.txt'' ''/readme.txt'' False (Some (Num 120)) (Some ''-rw-r--r--'')
              (Some False) None None]"
  by code_simp

text \<open>
  No entry that the parser of the \<open>execFile\<close> dialog returns is named \<open>.\<close> or \<open>..\<close>, for
  every input (and the parser does return).
\<close>

lemma parseListOutput_no_dot_entries:
  "\<exists>entries. parseListOutput output basePath = Inr entries
     \<and> (\<forall>e \<in> set entries. name e \<noteq> ''.'' \<and> name e \<noteq> ''..'')"
proof -
  obtain entries where r: "parseListOutput output basePath = Inr entries"
    using parseListOutput_total by blast
  have "name e \<noteq> ''.'' \<and> name e \<noteq> ''..''" if "e \<in> set entries" for e
    using parseListOutput_entry [OF r that] parseLine_name by blast
  with r show ?thesis by blast
qed

text \<open>
  C9. Every directory entry the parser makes has \<open>children\<close> equal to the empty sequence,
  and every file entry has no \<open>children\<close>: no freshly parsed directory is in the
  not-yet-loaded state. This holds for the parser of either dialog.
\<close>

theorem parsed_children_field:
  "(\<exists>entries. parseListOutput output basePath = Inr entries
      \<and> (\<forall>e \<in> set entries. children e = (if isDirectory e then Some [] else None)))
   \<and> (\<forall>entries. parseListOutput_sendCommand output basePath = Inr entries
      \<longrightarrow> (\<forall>e \<in> set entries. children e = (if isDirectory e then Some [] else None)))"
proof (intro conjI allI impI ballI)
  obtain entries where r: "parseListOutput output basePath = Inr entries"
    using parseListOutput_total by blast
  have "children e = (if isDirectory e then Some [] else None)" if "e \<in> set entries" for e
    using parseListOutput_entry [OF r that] parseLine_children by blast
  with r show "\<exists>entries. parseListOutput output basePath = Inr entries
      \<and> (\<forall>e \<in> set entries. children e = (if isDirectory e then Some [] else None))"
    by blast
next
  fix entries e
  assume "parseListOutput_sendCommand output basePath = Inr entries" and "e \<in> set entries"
  then show "children e = (if isDirectory e then Some [] else None)"
    using parseListOutput_sendCommand_entry parseLine_sendCommand_children by blast
qed

theorem parsed_children_field_witness:
  "parseListOutput
     (JSString ''drwxr-xr-x 2 root root 4096 Jan 1 00:00 var\<newline>-rw-r--r-- 1 root root 120 Jan 1 00:00 readme.txt'')
     ''/''
   = Inr [FileEntry ''var'' ''/var'' True None (Some ''drwxr-xr-x'') (Some False) (Some []) None,
          FileEntry ''readme.txt'' ''/readme.txt'' False (Some (Num 120)) (Some ''-rw-r--r--'')
            (Some False) None None]
   \<and> children (FileEntry ''var'' ''/var'' True None (Some ''drwxr-xr-x'') (Some False) (Some []) None)
       = Some []
   \<and> children (FileEntry ''readme.txt'' ''/readme.txt'' False (Some (Num 120))
        (Some ''-rw-r--r--'') (Some False) None None) = None"
proof -
  let ?listing = "JSString ''drwxr-xr-x 2 root root 4096 Jan 1 00:00 var\<newline>-rw-r--r-- 1 root root 120 Jan 1 00:00 readme.txt''"
  let ?var = "FileEntry ''var'' ''/var'' True None (Some ''drwxr-xr-x'') (Some False) (Some []) None"
  let ?readme = "FileEntry ''readme.txt'' ''/readme.txt'' False (Some (Num 120))
        (Some ''-rw-r--r--'') (Some False) None None"
  have run: "parseListOutput ?listing ''/'' = Inr [?var, ?readme]"
    by code_simp
  from parsed_children_field [of ?listing "''/''"]
  obtain entries where "parseListOutput ?listing ''/'' = Inr entries"
    and fields: "\<forall>e \<in> set entries. children e = (if isDirectory e then Some [] else None)"
    by blast
  with run have "entries = [?var, ?readme]" by simp
  with fields have "children ?var = Some []" and "children ?readme = None" by simp_all
  with run show ?thesis by blast
qed

section \<open>The tree updates: what they leave alone\<close>

lemma path_setExpanded [simp]: "path (setExpanded v e) = path e"
  by (cases e) simp

lemma path_setLoading [simp]: "path (setLoading v e) = path e"
  by (cases e) simp

lemma path_setChildren [simp]: "path (setChildren v e) = path e"
  by (cases e) simp

lemma updateNode_at: "path m = target \<Longrightarrow> updateNode f target m = f m"
  by (cases m) simp

text \<open>A target that no node has: the update rebuilds the same snapshot.\<close>

lemma updateNode_absent:
  "target \<notin> path ` set (nodesOf n) \<Longrightarrow> updateNode f target n = n"
proof (induction f target n rule: updateNode.induct)
  case (1 change target n p d s pm ex ch lo)
  show ?case
  proof (cases ch)
    case None
    with 1 show ?thesis by auto
  next
    case (Some cs)
    have "map (updateNode change target) cs = cs"
    proof (rule map_idI)
      fix x assume x: "x \<in> set cs"
      with "1.prems" Some have "target \<notin> path ` set (nodesOf x)" by auto
      with "1.IH" [OF _ Some x] "1.prems" show "updateNode change target x = x" by auto
    qed
    with 1 Some show ?thesis by auto
  qed
qed

lemma updateMatching_absent:
  "target \<notin> path ` set (allNodes files) \<Longrightarrow> updateMatching f target files = files"
  unfolding updateMatching_def allNodes_def
  by (rule map_idI) (auto intro!: updateNode_absent)

text \<open>
  A change that is invisible once the nodes at the target are blanked makes an update that
  is invisible once they are blanked.
\<close>

lemma blankNode_updateNode:
  assumes f: "\<And>m. path m = target \<Longrightarrow> blankNode g target (f m) = blankNode g target m"
  shows "blankNode g target (updateNode f target n) = blankNode g target n"
  using f
proof (induction f target n rule: updateNode.induct)
  case (1 change target n p d s pm ex ch lo)
  show ?case
  proof (cases "p = target")
    case True
    with "1.prems" [of "FileEntry n p d s pm ex ch lo"] show ?thesis by simp
  next
    case False
    show ?thesis
    proof (cases ch)
      case None
      with False show ?thesis by simp
    next
      case (Some cs)
      have "map (blankNode g target \<circ> updateNode change target) cs = map (blankNode g target) cs"
        using "1.IH" [OF False Some] "1.prems" by (intro map_cong) auto
      with False Some show ?thesis by simp
    qed
  qed
qed

lemma blankAt_updateMatching:
  assumes "\<And>m. path m = target \<Longrightarrow> blankNode g target (f m) = blankNode g target m"
  shows "blankAt g target (updateMatching f target files) = blankAt g target files"
  unfolding blankAt_def updateMatching_def
  by (simp add: blankNode_updateNode [OF assms] o_def)

lemma blank_expanded:
  "path m = target \<Longrightarrow>
     blankNode (setExpanded None) target (setExpanded v m) = blankNode (setExpanded None) target m"
  by (cases m) simp

lemma blank_loading:
  "path m = target \<Longrightarrow>
     blankNode (setLoading None) target (setLoading v m) = blankNode (setLoading None) target m"
  by (cases m) simp

lemma blank_children:
  "path m = target \<Longrightarrow>
     blankNode (\<lambda>e. setLoading None (setChildren None e)) target (setLoading v (setChildren w m))
       = blankNode (\<lambda>e. setLoading None (setChildren None e)) target m"
  by (cases m) simp

text \<open>
  What equality after blanking says about a pair of nodes off the target: they agree in
  every field of their own, and their children are equal after blanking in turn.
\<close>

lemma blankNode_eq_fields:
  assumes "blankNode g target x = blankNode g target y"
    and "path x \<noteq> target" and "path y \<noteq> target"
  shows "name x = name y \<and> path x = path y \<and> isDirectory x = isDirectory y
    \<and> entrySize x = entrySize y \<and> permissions x = permissions y
    \<and> expanded x = expanded y \<and> loading x = loading y
    \<and> map_option (map (blankNode g target)) (children x)
        = map_option (map (blankNode g target)) (children y)"
  using assms by (cases x; cases y) (auto split: option.splits)

lemma toggle_frame:
  "blankAt (setExpanded None) target (toggleExpand_updateFiles target files)
     = blankAt (setExpanded None) target files"
  unfolding toggleExpand_updateFiles_def
  by (rule blankAt_updateMatching) (rule blank_expanded)

lemma beginLoad_frame:
  "blankAt (setLoading None) target (loadChildren_updateFiles target files)
     = blankAt (setLoading None) target files"
  unfolding loadChildren_updateFiles_def
  by (rule blankAt_updateMatching) (rule blank_loading)

lemma withChildren_frame:
  "blankAt (\<lambda>e. setLoading None (setChildren None e)) target
       (updateFilesWithChildren target loaded files)
     = blankAt (\<lambda>e. setLoading None (setChildren None e)) target files"
  unfolding updateFilesWithChildren_def
  by (rule blankAt_updateMatching) (rule blank_children)

lemma onError_frame:
  "blankAt (setLoading None) target (updateFilesOnError target files)
     = blankAt (setLoading None) target files"
  unfolding updateFilesOnError_def
  by (rule blankAt_updateMatching) (rule blank_loading)

text \<open>Updating twice with a change that undoes itself on the nodes at the target.\<close>

lemma updateNode_twice:
  assumes keep: "\<And>m. path (f m) = path m"
    and inv: "\<forall>m \<in> set (nodesOf n). path m = target \<longrightarrow> f (f m) = m"
  shows "updateNode f target (updateNode f target n) = n"
  using keep inv
proof (induction f target n rule: updateNode.induct)
  case (1 change target n p d s pm ex ch lo)
  let ?N = "FileEntry n p d s pm ex ch lo"
  show ?case
  proof (cases "p = target")
    case True
    then have "path (change ?N) = target" using "1.prems"(1) [of ?N] by simp
    then have "updateNode change target (change ?N) = change (change ?N)"
      by (rule updateNode_at)
    moreover have "change (change ?N) = ?N" using "1.prems"(2) True by simp
    ultimately show ?thesis using True by simp
  next
    case False
    show ?thesis
    proof (cases ch)
      case None
      with False show ?thesis by simp
    next
      case (Some cs)
      have "map (updateNode change target \<circ> updateNode change target) cs = cs"
      proof (rule map_idI)
        fix x assume x: "x \<in> set cs"
        have "\<forall>m \<in> set (nodesOf x). path m = target \<longrightarrow> change (change m) = m"
          using "1.prems"(2) Some x by auto
        with "1.IH" [OF False Some x "1.prems"(1)]
        show "(updateNode change target \<circ> updateNode change target) x = x" by simp
      qed
      with False Some show ?thesis by simp
    qed
  qed
qed

lemma toggle_twice_node:
  "expanded m \<noteq> None \<Longrightarrow>
     setExpanded (Some (\<not> isSet (expanded (setExpanded (Some (\<not> isSet (expanded m))) m))))
       (setExpanded (Some (\<not> isSet (expanded m))) m) = m"
  by (cases m) (auto simp: isSet_def)

lemma toggle_twice:
  assumes "\<forall>m \<in> set (allNodes files). path m = target \<longrightarrow> expanded m \<noteq> None"
  shows "toggleExpand_updateFiles target (toggleExpand_updateFiles target files) = files"
proof -
  let ?f = "\<lambda>file. setExpanded (Some (\<not> isSet (expanded file))) file"
  have "map (updateNode ?f target \<circ> updateNode ?f target) files = files"
  proof (rule map_idI)
    fix x assume x: "x \<in> set files"
    have "\<forall>m \<in> set (nodesOf x). path m = target \<longrightarrow> ?f (?f m) = m"
      using assms x by (auto simp: allNodes_def toggle_twice_node)
    then show "(updateNode ?f target \<circ> updateNode ?f target) x = x"
      using updateNode_twice [of ?f x target] by simp
  qed
  then show ?thesis by (simp add: toggleExpand_updateFiles_def updateMatching_def)
qed

lemma scenario_paths:
  "path ` set (allNodes scenarioFiles) = {''/var'', ''/var/log'', ''/readme.txt''}"
  by (simp add: scenarioFiles_def allNodes_def insert_commute)

subsection \<open>The nodes an update changes\<close>

lemma targetsOf_at: "path m = target \<Longrightarrow> targetsOf target m = [m]"
  by (cases m) simp

lemma targetsOf_updateNode:
  assumes keep: "\<And>m. path (f m) = path m"
  shows "targetsOf target (updateNode f target n) = map f (targetsOf target n)"
  using keep
proof (induction f target n rule: updateNode.induct)
  case (1 change target n p d s pm ex ch lo)
  let ?N = "FileEntry n p d s pm ex ch lo"
  show ?case
  proof (cases "p = target")
    case True
    then have "path (change ?N) = target" using "1.prems" [of ?N] by simp
    then have "targetsOf target (change ?N) = [change ?N]" by (rule targetsOf_at)
    with True show ?thesis by simp
  next
    case False
    show ?thesis
    proof (cases ch)
      case None
      with False show ?thesis by simp
    next
      case (Some cs)
      have "map (targetsOf target \<circ> updateNode change target) cs
          = map (map change \<circ> targetsOf target) cs"
        using "1.IH" [OF False Some] "1.prems" by (intro map_cong) auto
      then have "concat (map (targetsOf target \<circ> updateNode change target) cs)
          = concat (map (map change \<circ> targetsOf target) cs)"
        by (rule arg_cong)
      with False Some show ?thesis by (simp add: map_concat)
    qed
  qed
qed

lemma targetsIn_updateMatching:
  assumes "\<And>m. path (f m) = path m"
  shows "targetsIn target (updateMatching f target files) = map f (targetsIn target files)"
proof -
  have "map (targetsOf target \<circ> updateNode f target) files
      = map (map f \<circ> targetsOf target) files"
    using targetsOf_updateNode [of f target, OF assms] by (intro map_cong) auto
  then have "concat (map (targetsOf target \<circ> updateNode f target) files)
      = concat (map (map f \<circ> targetsOf target) files)"
    by (rule arg_cong)
  then show ?thesis by (simp add: targetsIn_def updateMatching_def map_concat)
qed

lemma targetsIn_toggle:
  "targetsIn target (toggleExpand_updateFiles target files)
     = map (\<lambda>m. setExpanded (Some (\<not> isSet (expanded m))) m) (targetsIn target files)"
  unfolding toggleExpand_updateFiles_def by (rule targetsIn_updateMatching) simp

lemma targetsIn_beginLoad:
  "targetsIn target (loadChildren_updateFiles target files)
     = map (setLoading (Some True)) (targetsIn target files)"
  unfolding loadChildren_updateFiles_def by (rule targetsIn_updateMatching) simp

lemma targetsIn_withChildren:
  "targetsIn target (updateFilesWithChildren target loaded files)
     = map (\<lambda>m. setLoading (Some False) (setChildren (Some loaded) m)) (targetsIn target files)"
  unfolding updateFilesWithChildren_def by (rule targetsIn_updateMatching) simp

lemma targetsIn_onError:
  "targetsIn target (updateFilesOnError target files)
     = map (setLoading (Some False)) (targetsIn target files)"
  unfolding updateFilesOnError_def by (rule targetsIn_updateMatching) simp

subsection \<open>The snapshots the dialog holds have every \<open>expanded\<close> flag set\<close>

lemma expandedSet_iff:
  "expandedSet files \<longleftrightarrow> (\<forall>n \<in> set files. \<forall>k \<in> set (nodesOf n). expanded k \<noteq> None)"
  by (auto simp: expandedSet_def allNodes_def list_all_iff)

lemma nodesOf_updateNode_expanded:
  assumes change: "\<And>m. (\<forall>k \<in> set (nodesOf m). expanded k \<noteq> None)
             \<Longrightarrow> (\<forall>k \<in> set (nodesOf (f m)). expanded k \<noteq> None)"
    and flags: "\<forall>k \<in> set (nodesOf n). expanded k \<noteq> None"
  shows "\<forall>k \<in> set (nodesOf (updateNode f target n)). expanded k \<noteq> None"
  using change flags
proof (induction f target n rule: updateNode.induct)
  case (1 change target n p d s pm ex ch lo)
  let ?N = "FileEntry n p d s pm ex ch lo"
  show ?case
  proof (cases "p = target")
    case True
    with "1.prems"(1) [of ?N] "1.prems"(2) show ?thesis by simp
  next
    case False
    show ?thesis
    proof (cases ch)
      case None
      with False "1.prems"(2) show ?thesis by simp
    next
      case (Some cs)
      have "\<forall>k \<in> set (nodesOf (updateNode change target x)). expanded k \<noteq> None"
        if x: "x \<in> set cs" for x
      proof -
        have "\<forall>k \<in> set (nodesOf x). expanded k \<noteq> None"
          using "1.prems"(2) Some x by auto
        with "1.IH" [OF False Some x "1.prems"(1)] show ?thesis by simp
      qed
      moreover have "ex \<noteq> None" using "1.prems"(2) by simp
      ultimately show ?thesis using False Some by auto
    qed
  qed
qed

lemma expandedSet_updateMatching:
  assumes "\<And>m. (\<forall>k \<in> set (nodesOf m). expanded k \<noteq> None)
             \<Longrightarrow> (\<forall>k \<in> set (nodesOf (f m)). expanded k \<noteq> None)"
    and "expandedSet files"
  shows "expandedSet (updateMatching f target files)"
  using assms(2) nodesOf_updateNode_expanded [of f _ target, OF assms(1)]
  by (auto simp: expandedSet_iff updateMatching_def)

lemma nodesOf_setExpanded:
  "(\<forall>k \<in> set (nodesOf m). expanded k \<noteq> None)
     \<Longrightarrow> (\<forall>k \<in> set (nodesOf (setExpanded (Some b) m)). expanded k \<noteq> None)"
  by (cases m) auto

lemma nodesOf_setLoading:
  "(\<forall>k \<in> set (nodesOf m). expanded k \<noteq> None)
     \<Longrightarrow> (\<forall>k \<in> set (nodesOf (setLoading v m)). expanded k \<noteq> None)"
  by (cases m) auto

lemma nodesOf_setChildren:
  "expandedSet loaded \<Longrightarrow> (\<forall>k \<in> set (nodesOf m). expanded k \<noteq> None)
     \<Longrightarrow> (\<forall>k \<in> set (nodesOf (setLoading v (setChildren (Some loaded) m))). expanded k \<noteq> None)"
  by (cases m) (auto simp: expandedSet_iff)

lemma expandedSet_toggle:
  "expandedSet files \<Longrightarrow> expandedSet (toggleExpand_updateFiles target files)"
  unfolding toggleExpand_updateFiles_def
  by (rule expandedSet_updateMatching) (rule nodesOf_setExpanded)

lemma expandedSet_beginLoad:
  "expandedSet files \<Longrightarrow> expandedSet (loadChildren_updateFiles target files)"
  unfolding loadChildren_updateFiles_def
  by (rule expandedSet_updateMatching) (rule nodesOf_setLoading)

lemma expandedSet_onError:
  "expandedSet files \<Longrightarrow> expandedSet (updateFilesOnError target files)"
  unfolding updateFilesOnError_def
  by (rule expandedSet_updateMatching) (rule nodesOf_setLoading)

lemma expandedSet_withChildren:
  "expandedSet loaded \<Longrightarrow> expandedSet files
     \<Longrightarrow> expandedSet (updateFilesWithChildren target loaded files)"
  unfolding updateFilesWithChildren_def
  by (rule expandedSet_updateMatching) (rule nodesOf_setChildren)

lemma parseLine_nodes:
  "parseLine b l = Inr (Some e) \<Longrightarrow> expanded e = Some False \<and> nodesOf e = [e]"
  by (auto simp: parseLine_def Let_def at_def split: if_splits)

lemma expandedSet_parseListOutput:
  assumes "parseListOutput out b = Inr entries"
  shows "expandedSet entries"
proof -
  have "\<forall>k \<in> set (nodesOf e). expanded k \<noteq> None" if "e \<in> set entries" for e
  proof -
    from parseListOutput_entry [OF assms that] obtain l where "parseLine b l = Inr (Some e)"
      by blast
    then have "expanded e = Some False \<and> nodesOf e = [e]" by (rule parseLine_nodes)
    then show ?thesis by simp
  qed
  then show ?thesis by (simp add: expandedSet_iff)
qed

lemma expandedSet_listFilesAtPath:
  "listFilesAtPath props p outcome = Inr entries \<Longrightarrow> expandedSet entries"
  by (auto simp: listFilesAtPath_def split: sum.splits intro: expandedSet_parseListOutput)

lemma expandedSet_Nil: "expandedSet []"
  by (simp add: expandedSet_def allNodes_def)

lemma reachable_expandedSet:
  "reachable props st \<Longrightarrow> expandedSet (rootFiles st)"
proof (induction rule: reachable.induct)
  case mounted
  show ?case by (simp add: initialState_def expandedSet_Nil)
next
  case (root_begin st)
  then show ?case by (simp add: loadRootFiles_begin_def)
next
  case (root_settle st outcome)
  then show ?case
    by (auto simp: loadRootFiles_settle_def expandedSet_Nil split: sum.splits
          intro: expandedSet_listFilesAtPath)
next
  case (toggled st p)
  then show ?case by (simp add: toggleExpand_def expandedSet_toggle)
next
  case (load_begin st p)
  then show ?case by (simp add: loadChildren_begin_def expandedSet_beginLoad)
next
  case (load_settle st p outcome)
  then show ?case
    by (auto simp: loadChildren_settle_def split: sum.splits
          intro: expandedSet_withChildren expandedSet_onError expandedSet_listFilesAtPath)
qed

lemma toggle_twice_expandedSet:
  "expandedSet files \<Longrightarrow>
     toggleExpand_updateFiles target (toggleExpand_updateFiles target files) = files"
  by (rule toggle_twice) (simp add: expandedSet_def list_all_iff)

section \<open>The claims about the tree updates\<close>

lemma scenario_withChildren:
  "updateFilesWithChildren ''/var'' [] scenarioFiles
     = [FileEntry ''var'' ''/var'' True None (Some ''drwxr-xr-x'') (Some False) (Some [])
          (Some False),
        FileEntry ''readme.txt'' ''/readme.txt'' False (Some (Num 120)) (Some ''-rw-r--r--'')
          (Some False) None None]"
  by (simp add: updateFilesWithChildren_def updateMatching_def scenarioFiles_def)

text \<open>
  C7, as stated, fails in its second part for apply-children: the node \<open>/var/log\<close> is
  neither the target \<open>/var\<close> nor on the path to it, and after the children of \<open>/var\<close>
  have been applied (here an empty listing) it is no longer in the snapshot: the loaded
  list replaces the children the target had.
\<close>

theorem apply_children_counterexample:
  "FileEntry ''log'' ''/var/log'' True None (Some ''drwxr-xr-x'') (Some False) (Some []) None
     \<in> set (allNodes scenarioFiles)
   \<and> path (FileEntry ''log'' ''/var/log'' True None (Some ''drwxr-xr-x'') (Some False) (Some [])
        None) \<noteq> ''/var''
   \<and> ''/var'' \<notin> path ` set (nodesOf
        (FileEntry ''log'' ''/var/log'' True None (Some ''drwxr-xr-x'') (Some False) (Some [])
           None))
   \<and> updateFilesWithChildren ''/var'' [] scenarioFiles
       = [FileEntry ''var'' ''/var'' True None (Some ''drwxr-xr-x'') (Some False) (Some [])
            (Some False),
          FileEntry ''readme.txt'' ''/readme.txt'' False (Some (Num 120)) (Some ''-rw-r--r--'')
            (Some False) None None]
   \<and> FileEntry ''log'' ''/var/log'' True None (Some ''drwxr-xr-x'') (Some False) (Some []) None
       \<notin> set (allNodes (updateFilesWithChildren ''/var'' [] scenarioFiles))"
  by (simp add: scenario_withChildren) (simp add: scenarioFiles_def allNodes_def)

text \<open>
  C7, amended. For a target path that no node of the snapshot has, each of the four updates
  (toggle-expand, begin-load, apply-children, fail-load) returns the snapshot it was given.
  For any target, an update changes only the nodes that its search reaches at the target,
  and each of them in the way of the update: toggle-expand flips \<open>expanded\<close>, begin-load
  sets \<open>loading\<close> to true, fail-load sets it to false, and apply-children sets \<open>loading\<close>
  to false and puts the loaded list in the place of the children. Everything else is as
  before: with \<open>expanded\<close> (for toggle-expand), \<open>loading\<close> (for begin-load and fail-load),
  or \<open>children\<close> and \<open>loading\<close> (for apply-children) blanked on the nodes reached at the
  target, the snapshot after the update is the snapshot before it. So toggle-expand,
  begin-load and fail-load keep every other node, the nodes below the target too, and
  apply-children keeps every node that is neither the target nor below it.
\<close>

theorem updates_frame:
  "(target \<notin> path ` set (allNodes files) \<longrightarrow>
       toggleExpand_updateFiles target files = files
     \<and> loadChildren_updateFiles target files = files
     \<and> updateFilesWithChildren target loaded files = files
     \<and> updateFilesOnError target files = files)
   \<and> blankAt (setExpanded None) target (toggleExpand_updateFiles target files)
       = blankAt (setExpanded None) target files
   \<and> blankAt (setLoading None) target (loadChildren_updateFiles target files)
       = blankAt (setLoading None) target files
   \<and> blankAt (\<lambda>e. setLoading None (setChildren None e)) target
         (updateFilesWithChildren target loaded files)
       = blankAt (\<lambda>e. setLoading None (setChildren None e)) target files
   \<and> blankAt (setLoading None) target (updateFilesOnError target files)
       = blankAt (setLoading None) target files
   \<and> targetsIn target (toggleExpand_updateFiles target files)
       = map (\<lambda>m. setExpanded (Some (\<not> isSet (expanded m))) m) (targetsIn target files)
   \<and> targetsIn target (loadChildren_updateFiles target files)
       = map (setLoading (Some True)) (targetsIn target files)
   \<and> targetsIn target (updateFilesWithChildren target loaded files)
       = map (\<lambda>m. setLoading (Some False) (setChildren (Some loaded) m)) (targetsIn target files)
   \<and> targetsIn target (updateFilesOnError target files)
       = map (setLoading (Some False)) (targetsIn target files)"
proof (intro conjI impI)
  assume absent: "target \<notin> path ` set (allNodes files)"
  show "toggleExpand_updateFiles target files = files"
    unfolding toggleExpand_updateFiles_def using absent by (rule updateMatching_absent)
  show "loadChildren_updateFiles target files = files"
    unfolding loadChildren_updateFiles_def using absent by (rule updateMatching_absent)
  show "updateFilesWithChildren target loaded files = files"
    unfolding updateFilesWithChildren_def using absent by (rule updateMatching_absent)
  show "updateFilesOnError target files = files"
    unfolding updateFilesOnError_def using absent by (rule updateMatching_absent)
next
  show "blankAt (setExpanded None) target (toggleExpand_updateFiles target files)
       = blankAt (setExpanded None) target files"
    by (rule toggle_frame)
next
  show "blankAt (setLoading None) target (loadChildren_updateFiles target files)
       = blankAt (setLoading None) target files"
    by (rule beginLoad_frame)
next
  show "blankAt (\<lambda>e. setLoading None (setChildren None e)) target
         (updateFilesWithChildren target loaded files)
       = blankAt (\<lambda>e. setLoading None (setChildren None e)) target files"
    by (rule withChildren_frame)
next
  show "blankAt (setLoading None) target (updateFilesOnError target files)
       = blankAt (setLoading None) target files"
    by (rule onError_frame)
next
  show "targetsIn target (toggleExpand_updateFiles target files)
       = map (\<lambda>m. setExpanded (Some (\<not> isSet (expanded m))) m) (targetsIn target files)"
    by (rule targetsIn_toggle)
next
  show "targetsIn target (loadChildren_updateFiles target files)
       = map (setLoading (Some True)) (targetsIn target files)"
    by (rule targetsIn_beginLoad)
next
  show "targetsIn target (updateFilesWithChildren target loaded files)
       = map (\<lambda>m. setLoading (Some False) (setChildren (Some loaded) m)) (targetsIn target files)"
    by (rule targetsIn_withChildren)
next
  show "targetsIn target (updateFilesOnError target files)
       = map (setLoading (Some False)) (targetsIn target files)"
    by (rule targetsIn_onError)
qed

theorem updates_frame_witness:
  "toggleExpand_updateFiles ''/etc'' scenarioFiles = scenarioFiles
   \<and> loadChildren_updateFiles ''/etc'' scenarioFiles = scenarioFiles
   \<and> updateFilesWithChildren ''/etc'' [] scenarioFiles = scenarioFiles
   \<and> updateFilesOnError ''/etc'' scenarioFiles = scenarioFiles
   \<and> blankAt (setExpanded None) ''/var'' (toggleExpand_updateFiles ''/var'' scenarioFiles)
       = [FileEntry ''var'' ''/var'' True None (Some ''drwxr-xr-x'') None
            (Some [FileEntry ''log'' ''/var/log'' True None (Some ''drwxr-xr-x'') (Some False)
                     (Some []) None])
            None,
          FileEntry ''readme.txt'' ''/readme.txt'' False (Some (Num 120)) (Some ''-rw-r--r--'')
            (Some False) None None]
   \<and> targetsIn ''/var'' (toggleExpand_updateFiles ''/var'' scenarioFiles)
       = [FileEntry ''var'' ''/var'' True None (Some ''drwxr-xr-x'') (Some True)
            (Some [FileEntry ''log'' ''/var/log'' True None (Some ''drwxr-xr-x'') (Some False)
                     (Some []) None])
            None]
   \<and> targetsIn ''/var'' (updateFilesWithChildren ''/var'' [] scenarioFiles)
       = [FileEntry ''var'' ''/var'' True None (Some ''drwxr-xr-x'') (Some False) (Some [])
            (Some False)]"
proof -
  have absent: "''/etc'' \<notin> path ` set (allNodes scenarioFiles)"
    by (simp add: scenario_paths)
  have blanked: "blankAt (setExpanded None) ''/var'' scenarioFiles
       = [FileEntry ''var'' ''/var'' True None (Some ''drwxr-xr-x'') None
            (Some [FileEntry ''log'' ''/var/log'' True None (Some ''drwxr-xr-x'') (Some False)
                     (Some []) None])
            None,
          FileEntry ''readme.txt'' ''/readme.txt'' False (Some (Num 120)) (Some ''-rw-r--r--'')
            (Some False) None None]"
    by (simp add: blankAt_def scenarioFiles_def)
  have reached: "targetsIn ''/var'' scenarioFiles
       = [FileEntry ''var'' ''/var'' True None (Some ''drwxr-xr-x'') (Some False)
            (Some [FileEntry ''log'' ''/var/log'' True None (Some ''drwxr-xr-x'') (Some False)
                     (Some []) None])
            None]"
    by (simp add: targetsIn_def scenarioFiles_def)
  from updates_frame [of "''/etc''" scenarioFiles "[]"] absent
  have "toggleExpand_updateFiles ''/etc'' scenarioFiles = scenarioFiles
     \<and> loadChildren_updateFiles ''/etc'' scenarioFiles = scenarioFiles
     \<and> updateFilesWithChildren ''/etc'' [] scenarioFiles = scenarioFiles
     \<and> updateFilesOnError ''/etc'' scenarioFiles = scenarioFiles"
    by blast
  moreover from updates_frame [of "''/var''" scenarioFiles "[]"]
  have "blankAt (setExpanded None) ''/var'' (toggleExpand_updateFiles ''/var'' scenarioFiles)
       = blankAt (setExpanded None) ''/var'' scenarioFiles"
    and "targetsIn ''/var'' (toggleExpand_updateFiles ''/var'' scenarioFiles)
       = map (\<lambda>m. setExpanded (Some (\<not> isSet (expanded m))) m) (targetsIn ''/var'' scenarioFiles)"
    and "targetsIn ''/var'' (updateFilesWithChildren ''/var'' [] scenarioFiles)
       = map (\<lambda>m. setLoading (Some False) (setChildren (Some []) m))
           (targetsIn ''/var'' scenarioFiles)"
    by blast+
  ultimately show ?thesis by (simp add: blanked reached isSet_def)
qed

text \<open>
  On a node without an \<open>expanded\<close> field (the field is optional in \<open>FileEntry\<close>, but
  every node the dialog holds has it) two toggles do not give the node back: the first
  writes \<open>!undefined = true\<close>, the second \<open>false\<close>.
\<close>

lemma toggle_twice_without_flag:
  "toggleExpand_updateFiles ''/var''
     (toggleExpand_updateFiles ''/var''
        [FileEntry ''var'' ''/var'' True None (Some ''drwxr-xr-x'') None (Some []) None])
   = [FileEntry ''var'' ''/var'' True None (Some ''drwxr-xr-x'') (Some False) (Some []) None]"
  by (simp add: toggleExpand_updateFiles_def updateMatching_def isSet_def)

lemma scenario_root_listing:
  "loadRootFiles_settle scenarioProps
     (Resolved (CallOk (JSString ''drwxr-xr-x 2 root root 4096 Jan 1 00:00 var\<newline>-rw-r--r-- 1 root root 120 Jan 1 00:00 readme.txt'')))
     initialState
   = \<lparr> rootFiles =
         [FileEntry ''var'' ''/var'' True None (Some ''drwxr-xr-x'') (Some False) (Some []) None,
          FileEntry ''readme.txt'' ''/readme.txt'' False (Some (Num 120)) (Some ''-rw-r--r--'')
            (Some False) None None],
       dialogLoading = False, dialogError = None, execFileCalls = [] \<rparr>"
proof -
  have "parseListOutput
     (JSString ''drwxr-xr-x 2 root root 4096 Jan 1 00:00 var\<newline>-rw-r--r-- 1 root root 120 Jan 1 00:00 readme.txt'')
     ''/''
   = Inr [FileEntry ''var'' ''/var'' True None (Some ''drwxr-xr-x'') (Some False) (Some []) None,
          FileEntry ''readme.txt'' ''/readme.txt'' False (Some (Num 120)) (Some ''-rw-r--r--'')
            (Some False) None None]"
    by code_simp
  then show ?thesis
    by (simp add: loadRootFiles_settle_def listFilesAtPath_def execKubectl_def scenarioProps_def
          initialState_def)
qed

text \<open>
  C10. Every snapshot the dialog holds has the \<open>expanded\<close> flag set on every node: the
  parser sets it on each node it makes, and the four updates keep it set. On a snapshot
  with the flag set everywhere, so on every snapshot the dialog holds, applying
  toggle-expand twice with the same path gives the snapshot back. On every snapshot, one
  application changes no field but the \<open>expanded\<close> flag of the nodes it reaches at the
  target path, which it flips: with that flag blanked on those nodes, the snapshots before
  and after are equal.
\<close>

theorem toggle_twice_is_identity:
  "(expandedSet files \<longrightarrow>
      toggleExpand_updateFiles target (toggleExpand_updateFiles target files) = files)
   \<and> (reachable props st \<longrightarrow>
        expandedSet (rootFiles st)
      \<and> rootFiles (toggleExpand target (toggleExpand target st)) = rootFiles st)
   \<and> blankAt (setExpanded None) target (toggleExpand_updateFiles target files)
       = blankAt (setExpanded None) target files
   \<and> targetsIn target (toggleExpand_updateFiles target files)
       = map (\<lambda>m. setExpanded (Some (\<not> isSet (expanded m))) m) (targetsIn target files)"
proof (intro conjI impI)
  assume "expandedSet files"
  then show "toggleExpand_updateFiles target (toggleExpand_updateFiles target files) = files"
    by (rule toggle_twice_expandedSet)
next
  assume r: "reachable props st"
  then show flags: "expandedSet (rootFiles st)" by (rule reachable_expandedSet)
  then show "rootFiles (toggleExpand target (toggleExpand target st)) = rootFiles st"
    by (simp add: toggleExpand_def toggle_twice_expandedSet)
next
  show "blankAt (setExpanded None) target (toggleExpand_updateFiles target files)
       = blankAt (setExpanded None) target files"
    by (rule toggle_frame)
next
  show "targetsIn target (toggleExpand_updateFiles target files)
       = map (\<lambda>m. setExpanded (Some (\<not> isSet (expanded m))) m) (targetsIn target files)"
    by (rule targetsIn_toggle)
qed

theorem toggle_twice_is_identity_witness:
  "reachable scenarioProps
     (loadRootFiles_settle scenarioProps
        (Resolved (CallOk (JSString ''drwxr-xr-x 2 root root 4096 Jan 1 00:00 var\<newline>-rw-r--r-- 1 root root 120 Jan 1 00:00 readme.txt'')))
        initialState)
   \<and> rootFiles (toggleExpand ''/var''
        (loadRootFiles_settle scenarioProps
          (Resolved (CallOk (JSString ''drwxr-xr-x 2 root root 4096 Jan 1 00:00 var\<newline>-rw-r--r-- 1 root root 120 Jan 1 00:00 readme.txt'')))
          initialState))
     = [FileEntry ''var'' ''/var'' True None (Some ''drwxr-xr-x'') (Some True) (Some []) None,
        FileEntry ''readme.txt'' ''/readme.txt'' False (Some (Num 120)) (Some ''-rw-r--r--'')
          (Some False) None None]
   \<and> rootFiles (toggleExpand ''/var'' (toggleExpand ''/var''
        (loadRootFiles_settle scenarioProps
          (Resolved (CallOk (JSString ''drwxr-xr-x 2 root root 4096 Jan 1 00:00 var\<newline>-rw-r--r-- 1 root root 120 Jan 1 00:00 readme.txt'')))
          initialState)))
     = [FileEntry ''var'' ''/var'' True None (Some ''drwxr-xr-x'') (Some False) (Some []) None,
        FileEntry ''readme.txt'' ''/readme.txt'' False (Some (Num 120)) (Some ''-rw-r--r--'')
          (Some False) None None]
   \<and> expandedSet scenarioFiles
   \<and> toggleExpand_updateFiles ''/var'' (toggleExpand_updateFiles ''/var'' scenarioFiles)
       = scenarioFiles"
proof -
  let ?st = "loadRootFiles_settle scenarioProps
        (Resolved (CallOk (JSString ''drwxr-xr-x 2 root root 4096 Jan 1 00:00 var\<newline>-rw-r--r-- 1 root root 120 Jan 1 00:00 readme.txt'')))
        initialState"
  have r: "reachable scenarioProps ?st"
    by (intro reachable.root_settle reachable.mounted)
  have once: "rootFiles (toggleExpand ''/var'' ?st)
     = [FileEntry ''var'' ''/var'' True None (Some ''drwxr-xr-x'') (Some True) (Some []) None,
        FileEntry ''readme.txt'' ''/readme.txt'' False (Some (Num 120)) (Some ''-rw-r--r--'')
          (Some False) None None]"
    unfolding scenario_root_listing
    by (simp add: toggleExpand_def toggleExpand_updateFiles_def updateMatching_def isSet_def)
  have files: "rootFiles ?st
     = [FileEntry ''var'' ''/var'' True None (Some ''drwxr-xr-x'') (Some False) (Some []) None,
        FileEntry ''readme.txt'' ''/readme.txt'' False (Some (Num 120)) (Some ''-rw-r--r--'')
          (Some False) None None]"
    unfolding scenario_root_listing by simp
  have flags: "expandedSet scenarioFiles"
    by (auto simp: expandedSet_def allNodes_def scenarioFiles_def)
  from toggle_twice_is_identity
         [where files = scenarioFiles and target = "''/var''" and props = scenarioProps
            and st = ?st] r flags
  have "rootFiles (toggleExpand ''/var'' (toggleExpand ''/var'' ?st)) = rootFiles ?st"
    and "toggleExpand_updateFiles ''/var'' (toggleExpand_updateFiles ''/var'' scenarioFiles)
       = scenarioFiles"
    by blast+
  with r once files flags show ?thesis by simp
qed

section \<open>The claims about loading\<close>

lemma kubectlPath_scenario: "kubectlPath scenarioProps = ''kubectl''"
  by (simp add: kubectlPath_def scenarioProps_def)

lemma cluster_scenario: "cluster scenarioProps \<noteq> None"
  by (simp add: scenarioProps_def)

lemma scenario_args:
  "listFilesAtPath_args scenarioProps ''/var''
     = [''--kubeconfig'', ''/home/op/.kube/config'', ''--context'', ''dev'',
        ''exec'', ''-i'', ''-n'', ''default'', ''web'', ''-c'', ''app'', ''--'', ''sh'', ''-c'',
        ''ls -la -- '' @ [CHR 0x22] @ ''/var'' @ [CHR 0x22]]"
  by (simp add: listFilesAtPath_args_def buildKubectlArgs_def listCommand_def safePath_def
        scenarioProps_def)

lemma execFileCalls_begin:
  "cluster props \<noteq> None \<Longrightarrow>
     execFileCalls (loadChildren_begin props p st)
       = execFileCalls st @ [(kubectlPath props, listFilesAtPath_args props p)]"
  by (cases "cluster props") (simp_all add: loadChildren_begin_def)

lemma execFileCalls_begin_repeated:
  "cluster props \<noteq> None \<Longrightarrow>
     execFileCalls ((loadChildren_begin props p ^^ n) st)
       = execFileCalls st @ replicate n (kubectlPath props, listFilesAtPath_args props p)"
proof (induction n)
  case 0
  show ?case by simp
next
  case (Suc n)
  then show ?case
    by (simp add: execFileCalls_begin replicate_append_same)
qed

text \<open>
  C1. A click on the expand button of a collapsed directory row calls \<open>onLoadChildren\<close>
  once, with the row's path, when the row's \<open>children\<close> is \<open>undefined\<close>, and does not call
  it when \<open>children\<close> is present (an empty array included); in both cases it then calls
  \<open>onToggleExpand\<close>. So on expand a load is triggered if and only if \<open>children\<close> is
  \<open>undefined\<close> at the time of the click.
\<close>

theorem expand_click_loads_iff_unloaded:
  "isDirectory entry \<and> \<not> isSet (expanded entry) \<longrightarrow>
     FileTreeNode_expandButton entry
       = Some (if children entry = None
               then [OnLoadChildren (path entry), OnToggleExpand (path entry)]
               else [OnToggleExpand (path entry)])
     \<and> count_list (the (FileTreeNode_expandButton entry)) (OnLoadChildren (path entry))
         = (if children entry = None then 1 else 0)
     \<and> ((\<exists>p. OnLoadChildren p \<in> set (the (FileTreeNode_expandButton entry)))
          \<longleftrightarrow> children entry = None)"
  by (auto simp: FileTreeNode_expandButton_def expandButton_onClick_def)

theorem expand_click_loads_iff_unloaded_witness:
  "FileTreeNode_expandButton
     (FileEntry ''var'' ''/var'' True None (Some ''drwxr-xr-x'') (Some False) None None)
     = Some [OnLoadChildren ''/var'', OnToggleExpand ''/var'']
   \<and> FileTreeNode_expandButton
       (FileEntry ''var'' ''/var'' True None (Some ''drwxr-xr-x'') (Some False) (Some []) None)
       = Some [OnToggleExpand ''/var'']"
  using expand_click_loads_iff_unloaded
          [of "FileEntry ''var'' ''/var'' True None (Some ''drwxr-xr-x'') (Some False) None None"]
        expand_click_loads_iff_unloaded
          [of "FileEntry ''var'' ''/var'' True None (Some ''drwxr-xr-x'') (Some False) (Some []) None"]
  by (simp add: isSet_def)

text \<open>
  C2, as stated, fails: \<open>loadChildren\<close> does not look at the \<open>loading\<close> flag, so a second
  trigger for \<open>/var\<close> before the first has completed calls \<open>execFile\<close> a second time with
  the same listing command.
\<close>

theorem second_load_counterexample:
  "execFileCalls
     (loadChildren_begin scenarioProps ''/var''
        (loadChildren_begin scenarioProps ''/var'' scenarioState))
   = [(''kubectl'',
       [''--kubeconfig'', ''/home/op/.kube/config'', ''--context'', ''dev'',
        ''exec'', ''-i'', ''-n'', ''default'', ''web'', ''-c'', ''app'', ''--'', ''sh'', ''-c'',
        ''ls -la -- '' @ [CHR 0x22] @ ''/var'' @ [CHR 0x22]]),
      (''kubectl'',
       [''--kubeconfig'', ''/home/op/.kube/config'', ''--context'', ''dev'',
        ''exec'', ''-i'', ''-n'', ''default'', ''web'', ''-c'', ''app'', ''--'', ''sh'', ''-c'',
        ''ls -la -- '' @ [CHR 0x22] @ ''/var'' @ [CHR 0x22]])]
   \<and> count_list
       (execFileCalls
          (loadChildren_begin scenarioProps ''/var''
             (loadChildren_begin scenarioProps ''/var'' scenarioState)))
       (''kubectl'', listFilesAtPath_args scenarioProps ''/var'') \<noteq> 1"
  by (simp add: execFileCalls_begin cluster_scenario kubectlPath_scenario scenarioState_def
        scenario_args)

text \<open>
  C2, amended. Every trigger of \<open>loadChildren\<close> for a path makes its own call of
  \<open>execFile\<close> with the listing command of that path (when the dialog has a cluster),
  whether or not an earlier load of the path is still in flight: \<open>n\<close> triggers in a row make
  \<open>n\<close> calls.
\<close>

theorem every_trigger_calls_execFile:
  "cluster props \<noteq> None \<longrightarrow>
     execFileCalls ((loadChildren_begin props p ^^ n) st)
       = execFileCalls st @ replicate n (kubectlPath props, listFilesAtPath_args props p)"
  using execFileCalls_begin_repeated by blast

theorem every_trigger_calls_execFile_witness:
  "cluster scenarioProps \<noteq> None
   \<and> length (execFileCalls ((loadChildren_begin scenarioProps ''/var'' ^^ 3) scenarioState)) = 3"
  using every_trigger_calls_execFile
          [where props = scenarioProps and p = "''/var''" and n = 3 and st = scenarioState]
  by (simp add: cluster_scenario scenarioState_def)

lemma listFilesAtPath_failed_call:
  "listFilesAtPath scenarioProps p (Resolved (CallFailed (Some msg) None))
     = Inl (Error (if msg \<noteq> [] then msg else ''Failed to run kubectl''))"
  by (simp add: listFilesAtPath_def execKubectl_def scenarioProps_def)

lemma listFilesAtPath_rejected:
  "listFilesAtPath scenarioProps p (Rejected e) = Inl e"
  by (simp add: listFilesAtPath_def execKubectl_def scenarioProps_def)

lemma scenario_loading:
  "rootFiles (loadChildren_begin scenarioProps ''/var'' scenarioState)
     = [FileEntry ''var'' ''/var'' True None (Some ''drwxr-xr-x'') (Some False)
          (Some [FileEntry ''log'' ''/var/log'' True None (Some ''drwxr-xr-x'') (Some False)
                   (Some []) None])
          (Some True),
        FileEntry ''readme.txt'' ''/readme.txt'' False (Some (Num 120)) (Some ''-rw-r--r--'')
          (Some False) None None]"
  by (simp add: loadChildren_begin_def scenarioState_def scenarioFiles_def
        loadChildren_updateFiles_def updateMatching_def)

text \<open>
  C3, as stated, fails in its first part: a node has no field for an error, and the
  \<open>catch\<close> block of \<open>loadChildren\<close> stores the message in the dialog's one \<open>error\<close> cell.
  After a failed load of \<open>/var\<close> the node \<open>/var\<close> is the node before the load with
  \<open>loading: false\<close>, the same whatever the error was.
\<close>

theorem load_failure_counterexample:
  "rootFiles (loadChildren_settle scenarioProps ''/var'' (Rejected (Error ''permission denied''))
       (loadChildren_begin scenarioProps ''/var'' scenarioState))
   = [FileEntry ''var'' ''/var'' True None (Some ''drwxr-xr-x'') (Some False)
        (Some [FileEntry ''log'' ''/var/log'' True None (Some ''drwxr-xr-x'') (Some False)
                 (Some []) None])
        (Some False),
      FileEntry ''readme.txt'' ''/readme.txt'' False (Some (Num 120)) (Some ''-rw-r--r--'')
        (Some False) None None]
   \<and> rootFiles (loadChildren_settle scenarioProps ''/var'' (Rejected (Error ''no such directory''))
       (loadChildren_begin scenarioProps ''/var'' scenarioState))
     = rootFiles (loadChildren_settle scenarioProps ''/var'' (Rejected (Error ''permission denied''))
       (loadChildren_begin scenarioProps ''/var'' scenarioState))
   \<and> dialogError (loadChildren_settle scenarioProps ''/var'' (Rejected (Error ''permission denied''))
       (loadChildren_begin scenarioProps ''/var'' scenarioState))
     = Some ''permission denied''"
  by (simp add: loadChildren_settle_def listFilesAtPath_rejected scenario_loading
        updateFilesOnError_def updateMatching_def)

text \<open>
  C3, amended. When the load of a path fails, the message is stored in the dialog's
  \<open>error\<close> cell (\<open>Failed to load directory\<close> when what was thrown is no \<open>Error\<close>), not
  on a node. In the tree the failure sets the \<open>loading\<close> flag of the nodes that the search
  reaches at that path to false and changes nothing else: those nodes are, after the
  failure, the same nodes with \<open>loading: false\<close>, and with that flag blanked on them the
  tree is the tree before, so no other node changes in its expansion, children or loading
  flag; when no node has the path, the tree stays as it is. No command is run.
\<close>

theorem load_failure_effect:
  "listFilesAtPath props p outcome = Inl err \<longrightarrow>
     dialogError (loadChildren_settle props p outcome st)
       = Some (case err of Error m \<Rightarrow> m | NonError \<Rightarrow> ''Failed to load directory'')
     \<and> targetsIn p (rootFiles (loadChildren_settle props p outcome st))
         = map (setLoading (Some False)) (targetsIn p (rootFiles st))
     \<and> blankAt (setLoading None) p (rootFiles (loadChildren_settle props p outcome st))
         = blankAt (setLoading None) p (rootFiles st)
     \<and> (p \<notin> path ` set (allNodes (rootFiles st)) \<longrightarrow>
          rootFiles (loadChildren_settle props p outcome st) = rootFiles st)
     \<and> execFileCalls (loadChildren_settle props p outcome st) = execFileCalls st"
proof (intro impI conjI)
  assume failed: "listFilesAtPath props p outcome = Inl err"
  then have tree: "rootFiles (loadChildren_settle props p outcome st)
      = updateFilesOnError p (rootFiles st)"
    by (simp add: loadChildren_settle_def)
  show "dialogError (loadChildren_settle props p outcome st)
       = Some (case err of Error m \<Rightarrow> m | NonError \<Rightarrow> ''Failed to load directory'')"
    using failed by (simp add: loadChildren_settle_def)
  show "targetsIn p (rootFiles (loadChildren_settle props p outcome st))
         = map (setLoading (Some False)) (targetsIn p (rootFiles st))"
    unfolding tree by (rule targetsIn_onError)
  show "blankAt (setLoading None) p (rootFiles (loadChildren_settle props p outcome st))
         = blankAt (setLoading None) p (rootFiles st)"
    unfolding tree by (rule onError_frame)
  show "execFileCalls (loadChildren_settle props p outcome st) = execFileCalls st"
    using failed by (simp add: loadChildren_settle_def)
  show "rootFiles (loadChildren_settle props p outcome st) = rootFiles st"
    if "p \<notin> path ` set (allNodes (rootFiles st))"
    unfolding tree updateFilesOnError_def using that by (rule updateMatching_absent)
qed

theorem load_failure_effect_witness:
  "listFilesAtPath scenarioProps ''/var''
       (Resolved (CallFailed (Some ''ls: cannot open directory'') None))
     = Inl (Error ''ls: cannot open directory'')
   \<and> dialogError (loadChildren_settle scenarioProps ''/var''
        (Resolved (CallFailed (Some ''ls: cannot open directory'') None))
        (loadChildren_begin scenarioProps ''/var'' scenarioState))
     = Some ''ls: cannot open directory''
   \<and> targetsIn ''/var'' (rootFiles (loadChildren_begin scenarioProps ''/var'' scenarioState))
     = [FileEntry ''var'' ''/var'' True None (Some ''drwxr-xr-x'') (Some False)
          (Some [FileEntry ''log'' ''/var/log'' True None (Some ''drwxr-xr-x'') (Some False)
                   (Some []) None])
          (Some True)]
   \<and> targetsIn ''/var'' (rootFiles (loadChildren_settle scenarioProps ''/var''
        (Resolved (CallFailed (Some ''ls: cannot open directory'') None))
        (loadChildren_begin scenarioProps ''/var'' scenarioState)))
     = [FileEntry ''var'' ''/var'' True None (Some ''drwxr-xr-x'') (Some False)
          (Some [FileEntry ''log'' ''/var/log'' True None (Some ''drwxr-xr-x'') (Some False)
                   (Some []) None])
          (Some False)]"
proof -
  have failed: "listFilesAtPath scenarioProps ''/var''
       (Resolved (CallFailed (Some ''ls: cannot open directory'') None))
     = Inl (Error ''ls: cannot open directory'')"
    by (simp add: listFilesAtPath_failed_call)
  have before: "targetsIn ''/var'' (rootFiles (loadChildren_begin scenarioProps ''/var'' scenarioState))
     = [FileEntry ''var'' ''/var'' True None (Some ''drwxr-xr-x'') (Some False)
          (Some [FileEntry ''log'' ''/var/log'' True None (Some ''drwxr-xr-x'') (Some False)
                   (Some []) None])
          (Some True)]"
    by (simp add: scenario_loading targetsIn_def)
  from load_failure_effect
         [where props = scenarioProps and p = "''/var''"
            and outcome = "Resolved (CallFailed (Some ''ls: cannot open directory'') None)"
            and err = "Error ''ls: cannot open directory''"
            and st = "loadChildren_begin scenarioProps ''/var'' scenarioState"]
       failed
  have "dialogError (loadChildren_settle scenarioProps ''/var''
        (Resolved (CallFailed (Some ''ls: cannot open directory'') None))
        (loadChildren_begin scenarioProps ''/var'' scenarioState))
     = Some ''ls: cannot open directory''"
    and "targetsIn ''/var'' (rootFiles (loadChildren_settle scenarioProps ''/var''
        (Resolved (CallFailed (Some ''ls: cannot open directory'') None))
        (loadChildren_begin scenarioProps ''/var'' scenarioState)))
     = map (setLoading (Some False))
         (targetsIn ''/var'' (rootFiles (loadChildren_begin scenarioProps ''/var'' scenarioState)))"
    by simp_all
  with failed before show ?thesis by simp
qed

section \<open>The claim about the listing command\<close>

lemma safePath_Nil: "safePath [] = []"
  by (simp add: safePath_def)

lemma safePath_Cons:
  "safePath (c # cs)
     = (if c = CHR 0x22 then CHR 0x5C # CHR 0x22 # safePath cs else c # safePath cs)"
  by (simp add: safePath_def)

lemma safePath_no_leading_quote: "safePath p \<noteq> CHR 0x22 # rest"
  by (cases p) (auto simp: safePath_Cons safePath_Nil)

lemma sh_reads_safePath:
  "\<forall>c \<in> set p. c \<noteq> CHR 0x5C \<and> c \<noteq> CHR 0x24 \<and> c \<noteq> CHR 0x60 \<Longrightarrow>
     shDoubleQuoted (safePath p @ CHR 0x22 # rest) = Some (p, rest)"
proof (induction p)
  case Nil
  show ?case by (simp add: safePath_Nil)
next
  case (Cons c cs)
  then have ih: "shDoubleQuoted (safePath cs @ CHR 0x22 # rest) = Some (cs, rest)" by simp
  from Cons.prems have c: "c \<noteq> CHR 0x5C" "c \<noteq> CHR 0x24" "c \<noteq> CHR 0x60" by simp_all
  show ?case
  proof (cases "c = CHR 0x22")
    case True
    with ih show ?thesis by (simp add: safePath_Cons)
  next
    case False
    with c ih show ?thesis by (simp add: safePath_Cons)
  qed
qed

text \<open>
  C8. The claim does not hold of \<open>listFilesAtPath\<close>: only the double quote is escaped
  (\<^verbatim>\<open>path.replace(/"/g, "\\\"")\<close>). For the path \<^verbatim>\<open>/a\"b\<close> the script is
  \<^verbatim>\<open>ls -la -- "/a\\"b"\<close>; there \<open>sh\<close> takes the two backslashes for one escaped
  backslash and the quote after them for the end of the word, so it reads the word
  \<^verbatim>\<open>/a\\<close> and finds \<^verbatim>\<open>b"\<close> outside the quotes. A dollar sign goes into the script as
  it is, too.
\<close>

theorem listing_command_backslash_quote:
  "last (listFilesAtPath_args scenarioProps [CHR ''/'', CHR ''a'', CHR 0x5C, CHR 0x22, CHR ''b''])
     = ''ls -la -- ''
         @ [CHR 0x22, CHR ''/'', CHR ''a'', CHR 0x5C, CHR 0x5C, CHR 0x22, CHR ''b'', CHR 0x22]
   \<and> shDoubleQuoted (safePath [CHR ''/'', CHR ''a'', CHR 0x5C, CHR 0x22, CHR ''b''] @ [CHR 0x22])
       = Some ([CHR ''/'', CHR ''a'', CHR 0x5C], [CHR ''b'', CHR 0x22])
   \<and> shDoubleQuoted (safePath [CHR ''/'', CHR ''a'', CHR 0x5C, CHR 0x22, CHR ''b''] @ [CHR 0x22])
       \<noteq> Some ([CHR ''/'', CHR ''a'', CHR 0x5C, CHR 0x22, CHR ''b''], [])
   \<and> safePath ''/tmp/$(id)'' = ''/tmp/$(id)''"
  by (simp add: listFilesAtPath_args_def buildKubectlArgs_def listCommand_def safePath_def
        scenarioProps_def)

text \<open>
  Where the escaping is enough: for a path made of any characters but backslash, dollar
  sign and backquote (spaces and quotes of both kinds included), what \<open>sh\<close> reads between
  the double quotes is the path itself; this is \<open>sh_reads_safePath\<close> above.
\<close>

section \<open>The earlier dialog's parser\<close>

text \<open>
  The earlier dialog's commands: for the root, the one path \<open>loadFilesAtPath\<close> is called
  with, the unescaped text is the escaped one.
\<close>

lemma loadFilesAtPath_command_root:
  "loadFilesAtPath_command props ''/'' = loadChildren_command props ''/''"
  by (simp add: loadFilesAtPath_command_def loadChildren_command_def safePath_def)

text \<open>
  C5. The claim does not hold of the \<open>parseListOutput\<close> of the \<open>sendCommand\<close> dialog: it
  calls \<open>output.split\<close> with no test of the input before, so \<open>undefined\<close> (what
  \<open>output as string\<close> is when \<open>sendCommand\<close> resolves to nothing) makes it throw a
  TypeError, where the \<open>parseListOutput\<close> of the \<open>execFile\<close> dialog returns the empty
  sequence.
\<close>

theorem parseListOutput_sendCommand_throws:
  "parseListOutput_sendCommand JSUndefined ''/'' = Inl (Error ''Cannot read properties of undefined'')
   \<and> parseListOutput JSUndefined ''/'' = Inr []"
  by (simp add: parseListOutput_sendCommand_def parseListOutput_def)

text \<open>
  C6. The claim does not hold of the \<open>parseListOutput\<close> of the \<open>sendCommand\<close> dialog: it
  has no test of the name, and the lines of \<open>.\<close> and \<open>..\<close> that \<open>ls -lah\<close> prints become
  entries, where the \<open>parseListOutput\<close> of the \<open>execFile\<close> dialog drops them.
\<close>

theorem parseListOutput_sendCommand_keeps_dot:
  "parseListOutput_sendCommand
     (JSString ''drwxr-xr-x 2 root root 4096 Jan 1 00:00 .\<newline>drwxr-xr-x 3 root root 4096 Jan 1 00:00 ..'')
     ''/''
   = Inr [FileEntry ''.'' ''/.'' True None (Some ''drwxr-xr-x'') (Some False) (Some []) None,
          FileEntry ''..'' ''/..'' True None (Some ''drwxr-xr-x'') (Some False) (Some []) None]
   \<and> parseListOutput
       (JSString ''drwxr-xr-x 2 root root 4096 Jan 1 00:00 .\<newline>drwxr-xr-x 3 root root 4096 Jan 1 00:00 ..'')
       ''/''
     = Inr []"
  by code_simp

end
